theory Spec2Isabelle
  imports Complex_Main "HOL-Library.Word"
begin

section \<open>Go standard-library string helpers used by the repository\<close>

text \<open>
  Go strings are byte sequences; \<open>string\<close> (a \<open>char list\<close>) holds the bytes.
  \<open>strings.TrimSpace\<close> removes leading and trailing white space as \<open>unicode.IsSpace\<close>
  defines it; the white-space code points are listed here by their UTF-8 encodings.
\<close>

definition whiteSpace :: "string list" where
  "whiteSpace =
     [[CHR 0x09], [CHR 0x0A], [CHR 0x0B], [CHR 0x0C], [CHR 0x0D], [CHR 0x20],
      [CHR 0xC2, CHR 0x85], [CHR 0xC2, CHR 0xA0], [CHR 0xE1, CHR 0x9A, CHR 0x80],
      [CHR 0xE2, CHR 0x80, CHR 0x80], [CHR 0xE2, CHR 0x80, CHR 0x81],
      [CHR 0xE2, CHR 0x80, CHR 0x82], [CHR 0xE2, CHR 0x80, CHR 0x83],
      [CHR 0xE2, CHR 0x80, CHR 0x84], [CHR 0xE2, CHR 0x80, CHR 0x85],
      [CHR 0xE2, CHR 0x80, CHR 0x86], [CHR 0xE2, CHR 0x80, CHR 0x87],
      [CHR 0xE2, CHR 0x80, CHR 0x88], [CHR 0xE2, CHR 0x80, CHR 0x89],
      [CHR 0xE2, CHR 0x80, CHR 0x8A], [CHR 0xE2, CHR 0x80, CHR 0xA8],
      [CHR 0xE2, CHR 0x80, CHR 0xA9], [CHR 0xE2, CHR 0x80, CHR 0xAF],
      [CHR 0xE2, CHR 0x81, CHR 0x9F], [CHR 0xE3, CHR 0x80, CHR 0x80]]"

definition HasPrefix :: "string \<Rightarrow> string \<Rightarrow> bool" where
  "HasPrefix s p = (take (length p) s = p)"

definition HasSuffix :: "string \<Rightarrow> string \<Rightarrow> bool" where
  "HasSuffix s p = (length p \<le> length s \<and> drop (length s - length p) s = p)"

definition TrimPrefix :: "string \<Rightarrow> string \<Rightarrow> string" where
  "TrimPrefix s p = (if HasPrefix s p then drop (length p) s else s)"


text \<open>One leading white-space code point, if the string starts with one.\<close>

fun leadingSpace :: "string list \<Rightarrow> string \<Rightarrow> string option" where
  "leadingSpace [] s = None"
| "leadingSpace (w # ws) s =
     (if w \<noteq> [] \<and> HasPrefix s w then Some w else leadingSpace ws s)"

fun trailingSpace :: "string list \<Rightarrow> string \<Rightarrow> string option" where
  "trailingSpace [] s = None"
| "trailingSpace (w # ws) s =
     (if w \<noteq> [] \<and> HasSuffix s w then Some w else trailingSpace ws s)"

lemma leadingSpace_Some: "leadingSpace ws s = Some w \<Longrightarrow> w \<noteq> [] \<and> HasPrefix s w"
  by (induction ws) (auto split: if_splits)

lemma trailingSpace_Some: "trailingSpace ws s = Some w \<Longrightarrow> w \<noteq> [] \<and> HasSuffix s w"
  by (induction ws) (auto split: if_splits)

function TrimLeft :: "string \<Rightarrow> string" where
  "TrimLeft s =
     (case leadingSpace whiteSpace s of
        None \<Rightarrow> s
      | Some w \<Rightarrow> TrimLeft (drop (length w) s))"
  by pat_completeness auto
termination
proof (relation "measure length")
  show "wf (measure length)" by simp
next
  fix s :: string and w
  assume "leadingSpace whiteSpace s = Some w"
  then have "w \<noteq> []" and "HasPrefix s w"
    using leadingSpace_Some by blast+
  then have "s \<noteq> []" by (auto simp: HasPrefix_def)
  with \<open>w \<noteq> []\<close> show "(drop (length w) s, s) \<in> measure length" by simp
qed

function TrimRight :: "string \<Rightarrow> string" where
  "TrimRight s =
     (case trailingSpace whiteSpace s of
        None \<Rightarrow> s
      | Some w \<Rightarrow> TrimRight (take (length s - length w) s))"
  by pat_completeness auto
termination
proof (relation "measure length")
  show "wf (measure length)" by simp
next
  fix s :: string and w
  assume "trailingSpace whiteSpace s = Some w"
  then have "w \<noteq> []" and "HasSuffix s w"
    using trailingSpace_Some by blast+
  then have "s \<noteq> []" by (auto simp: HasSuffix_def)
  with \<open>w \<noteq> []\<close> show "(take (length s - length w) s, s) \<in> measure length" by simp
qed

declare TrimLeft.simps [simp del] TrimRight.simps [simp del]

definition TrimSpace :: "string \<Rightarrow> string" where
  "TrimSpace s = TrimRight (TrimLeft s)"

text \<open>\<open>strings.ReplaceAll(s, old, new)\<close> for a one-byte \<open>old\<close> and \<open>new\<close>.\<close>

definition ReplaceAll :: "string \<Rightarrow> char \<Rightarrow> char \<Rightarrow> string" where
  "ReplaceAll s old new = map (\<lambda>c. if c = old then new else c) s"

text \<open>
  \<open>onlyDigits\<close> ranges over the runes of the string and keeps those in \<open>'0'..'9'\<close>.
  A rune outside ASCII is encoded by bytes that are all \<open>\<ge> 0x80\<close>, so filtering
  the bytes keeps the same characters.
\<close>

definition isDigit :: "char \<Rightarrow> bool" where
  "isDigit c = ((48::nat) \<le> of_char c \<and> of_char c \<le> (57::nat))"

definition onlyDigits :: "string \<Rightarrow> string" where
  "onlyDigits s = filter isDigit s"

section \<open>Parser output (package nfe)\<close>

text \<open>
  The type variable \<open>'f\<close> stands for Go's \<open>float64\<close>: the structs only store the
  values that \<open>strconv.ParseFloat\<close> returns, so the embedding is parametric in them.
  Go's \<open>int\<close> fields hold what \<open>encoding/xml\<close> and \<open>strconv.Atoi\<close> return and are
  never computed with; they are \<open>int\<close>.
\<close>

record 'f ParsedItem =
  it_NItem :: int
  it_Codigo :: string
  it_CodigoEAN :: string
  it_Descricao :: string
  it_NCM :: string
  it_CFOP :: string
  it_Unidade :: string
  it_Quantidade :: 'f
  it_ValorUnitario :: 'f
  it_ValorTotalBruto :: 'f
  it_ValorFrete :: 'f
  it_ValorSeguro :: 'f
  it_ValorDesconto :: 'f
  it_ValorOutros :: 'f
  it_IndTotal :: int
  it_BaseCalculoICMS :: 'f
  it_ValorICMS :: 'f
  it_BaseCalculoICMSST :: 'f
  it_ValorICMSST :: 'f
  it_ValorIPI :: 'f
  it_ValorPIS :: 'f
  it_ValorCOFINS :: 'f

record 'f ParsedDuplicata =
  du_Numero :: string
  du_DataVencimento :: string
  du_Valor :: 'f

record 'f ParsedPagamento =
  pg_IndicadorPagamento :: "int option"
  pg_MeioPagamento :: string
  pg_Valor :: 'f
  pg_CNPJCredenciadora :: string
  pg_BandeiraCartao :: string
  pg_CodigoAutorizacao :: string

record 'f ParsedNFe =
  ChaveAcesso :: string
  HashIntegridade :: string
  Modelo :: int
  Serie :: int
  Numero :: int
  EmissaoDate :: string
  TipoOperacao :: int
  TipoAmbiente :: int
  NaturezaOperacao :: string
  ProtocoloAut :: string
  DataAutorizacao :: string
  CodigoStatus :: int
  EmitenteCNPJ :: string
  EmitenteRazao :: string
  DestCNPJCPF :: string
  DestRazao :: string
  ValorTotalNota :: 'f
  ValorProdutos :: 'f
  ValorDesconto :: 'f
  ValorICMS :: 'f
  ValorIPI :: 'f
  ValorPIS :: 'f
  ValorCOFINS :: 'f
  ValorII :: 'f
  ValorFrete :: 'f
  ValorSeguro :: 'f
  ModalidadeFrete :: int
  XMLRaw :: string
  Itens :: "'f ParsedItem list"
  Duplicatas :: "'f ParsedDuplicata list"
  Pagamentos :: "'f ParsedPagamento list"

section \<open>Parser (package nfe)\<close>

subsection \<open>The structs that \<open>encoding/xml\<close> fills\<close>

text \<open>
  One record per Go struct, fields in the source's order; a pointer field is an
  \<open>option\<close> (\<open>None\<close> is \<open>nil\<close>: the element is absent), a slice is a list, an absent
  string element is the empty string and an absent \<open>int\<close> element is 0.
  The structs \<open>prod\<close>, \<open>card\<close> and \<open>total\<close> are \<open>prodNFe\<close>, \<open>cardNFe\<close> and
  \<open>totalNFe\<close> here, the short names being taken by HOL.
\<close>

record ide =
  ide_Modelo :: int
  ide_Serie :: int
  ide_NNF :: int
  ide_DhEmi :: string
  ide_DEmi :: string
  ide_TpNF :: int
  ide_TpAmb :: int
  ide_NatOp :: string

record emit =
  emit_CNPJ :: string
  emit_XNome :: string

record dest =
  dest_CNPJ :: string
  dest_CPF :: string
  dest_XNome :: string

record transp =
  transp_ModFrete :: string

record icmsTot =
  tot_VNF :: string
  tot_VProd :: string
  tot_VDesc :: string
  tot_VICMS :: string
  tot_VIPI :: string
  tot_VPIS :: string
  tot_VCOFINS :: string
  tot_VII :: string
  tot_VFrete :: string
  tot_VSeg :: string

record totalNFe =
  total_ICMSTot :: icmsTot

record prodNFe =
  prod_CProd :: string
  prod_CEAN :: string
  prod_XProd :: string
  prod_NCM :: string
  prod_CFOP :: string
  prod_UCom :: string
  prod_QCom :: string
  prod_VUnCom :: string
  prod_VProd :: string
  prod_VFrete :: string
  prod_VSeg :: string
  prod_VDesc :: string
  prod_VOutro :: string
  prod_IndTot :: string

record icmsVal =
  iv_VBC :: string
  iv_VICMS :: string

record icmsSTVal =
  isv_VBC :: string
  isv_VICMS :: string
  isv_VBCST :: string
  isv_VICMSST :: string

record icmsSTOnly =
  iso_VBCST :: string
  iso_VICMSST :: string

type_synonym icmsSimple = unit

record icmsGroup =
  ICMS00 :: "icmsVal option"
  ICMS10 :: "icmsSTVal option"
  ICMS20 :: "icmsVal option"
  ICMS30 :: "icmsSTVal option"
  ICMS40 :: "icmsSimple option"
  ICMS51 :: "icmsVal option"
  ICMS60 :: "icmsSTOnly option"
  ICMS70 :: "icmsSTVal option"
  ICMS90 :: "icmsSTVal option"
  ICMSPart :: "icmsSTVal option"
  ICMSSN101 :: "icmsSimple option"
  ICMSSN102 :: "icmsSimple option"
  ICMSSN201 :: "icmsSTVal option"
  ICMSSN202 :: "icmsSTVal option"
  ICMSSN500 :: "icmsSTOnly option"
  ICMSSN900 :: "icmsSTVal option"

record ipiTrib =
  ipiTrib_VIPI :: string

type_synonym ipiNT = unit

record ipi =
  ipi_Trib :: "ipiTrib option"
  ipi_NT :: "ipiNT option"

record pisVal =
  pisVal_VPIS :: string

record pis =
  pis_Aliq :: "pisVal option"
  pis_Qtde :: "pisVal option"
  pis_NT :: "pisVal option"
  pis_Outr :: "pisVal option"

record cofinsVal =
  cofinsVal_VCOFINS :: string

record cofins =
  cofins_Aliq :: "cofinsVal option"
  cofins_Qtde :: "cofinsVal option"
  cofins_NT :: "cofinsVal option"
  cofins_Outr :: "cofinsVal option"

record imposto =
  imp_ICMS :: icmsGroup
  imp_IPI :: "ipi option"
  imp_PIS :: "pis option"
  imp_COFINS :: "cofins option"

record det =
  det_NItem :: string
  det_Prod :: prodNFe
  det_Imposto :: imposto

record dup =
  dup_Numero :: string
  dup_DVenc :: string
  dup_Valor :: string

record cobr =
  cobr_Duplicatas :: "dup list"

record cardNFe =
  card_CNPJ :: string
  card_Bandeira :: string
  card_Aut :: string

record detPag =
  detPag_IndPag :: string
  detPag_Meio :: string
  detPag_Valor :: string
  detPag_Card :: "cardNFe option"

record pag =
  pag_Det :: "detPag list"

record infNFe =
  inf_ID :: string
  inf_Versao :: string
  inf_Ide :: ide
  inf_Emit :: emit
  inf_Dest :: "dest option"
  inf_Det :: "det list"
  inf_Total :: totalNFe
  inf_Transp :: "transp option"
  inf_Cobr :: "cobr option"
  inf_Pag :: "pag option"

record nfe =
  nfe_InfNFe :: infNFe

record infProt =
  infProt_ChNFe :: string
  infProt_DhRecb :: string
  infProt_NProt :: string
  infProt_CStat :: string

record protNFe =
  prot_InfProt :: infProt

record nfeProc =
  proc_NFe :: nfe
  proc_ProtNFe :: "protNFe option"

subsection \<open>What the parser takes from outside the repository\<close>

text \<open>
  The Go standard library and the XSD validator are not code of the repository. The
  functions of theirs that the parser calls are the fields of \<open>golib\<close> (pure functions)
  and of \<open>world\<close> (the file system, the process environment and the validator):
  \<^item> \<open>strconv_ParseFloat s\<close> is \<open>strconv.ParseFloat(s, 64)\<close>, \<open>None\<close> for an error;
  \<^item> \<open>strconv_Atoi s\<close> is \<open>strconv.Atoi(s)\<close>, \<open>None\<close> for an error;
  \<^item> \<open>time_Parse_Format layout d\<close> is \<open>time.Parse(layout, d)\<close> followed, when it
    succeeds, by \<open>t.Format("2006-01-02")\<close>;
  \<^item> \<open>xml_Unmarshal_nfeProc data\<close> and \<open>xml_Unmarshal_nfe data\<close> are
    \<open>xml.Unmarshal(data, &v)\<close> into a fresh \<open>nfeProc\<close> and a fresh \<open>nfe\<close>,
    \<open>None\<close> for an error;
  \<^item> \<open>sha256_hex data\<close> is \<open>hex.EncodeToString(sha256.Sum256(data))\<close>;
  \<^item> the fields of \<open>world\<close> return \<open>Inl\<close> or \<open>Some\<close> of the error text when they fail.
\<close>

record 'f golib =
  strconv_ParseFloat :: "string \<Rightarrow> 'f option"
  strconv_Atoi :: "string \<Rightarrow> int option"
  time_Parse_Format :: "string \<Rightarrow> string \<Rightarrow> string option"
  xml_Unmarshal_nfeProc :: "string \<Rightarrow> nfeProc option"
  xml_Unmarshal_nfe :: "string \<Rightarrow> nfe option"
  sha256_hex :: "string \<Rightarrow> string"
  strings_ToLower :: "string \<Rightarrow> string"
  filepath_IsAbs :: "string \<Rightarrow> bool"
  filepath_Join :: "string \<Rightarrow> string \<Rightarrow> string"

record world =
  os_ReadFile :: "string \<Rightarrow> string + string"
  os_Getenv :: "string \<Rightarrow> string"
  os_Stat :: "string \<Rightarrow> string option"
  xsd_Init :: "string option"
  xsd_NewXsdHandlerUrl :: "string \<Rightarrow> string option"
  xsd_ValidateMem :: "string \<Rightarrow> string \<Rightarrow> string option"

datatype parse_error =
    ErrReadXML string string
  | ErrXsdDirUnset
  | ErrXsdMainUnset
  | ErrXsdMainUndefined
  | ErrXsdNotFound string string
  | ErrXsdInit string
  | ErrXsdLoad string string
  | ErrXsdInvalid string string
  | ErrNotRecognized string
  | ErrUnexpectedType

subsection \<open>Generic helpers (dates, numbers, access key)\<close>

definition extractChave :: "string \<Rightarrow> string" where
  "extractChave ident = TrimPrefix (TrimSpace ident) ''NFe''"

definition parseFloat :: "('f::zero) golib \<Rightarrow> string \<Rightarrow> 'f" where
  "parseFloat lib v =
     (let v1 = TrimSpace v in
      if v1 = [] then 0
      else
        let v2 = ReplaceAll v1 (CHR '','') (CHR ''.'') in
        case strconv_ParseFloat lib v2 of
          None \<Rightarrow> 0
        | Some f \<Rightarrow> f)"

definition parseInt :: "'f golib \<Rightarrow> string \<Rightarrow> int" where
  "parseInt lib v =
     (let v1 = TrimSpace v in
      if v1 = [] then 0
      else case strconv_Atoi lib v1 of None \<Rightarrow> 0 | Some i \<Rightarrow> i)"

definition date_layouts :: "string list" where
  "date_layouts =
     [''2006-01-02T15:04:05Z07:00'', ''2006-01-02T15:04:05-07:00'', ''2006-01-02T15:04:05'']"

text \<open>The loop over the layouts: the first layout that parses decides.\<close>

fun try_layouts :: "'f golib \<Rightarrow> string list \<Rightarrow> string \<Rightarrow> string option" where
  "try_layouts lib [] d = None"
| "try_layouts lib (layout # layouts) d =
     (case time_Parse_Format lib layout d of
        Some ymd \<Rightarrow> Some ymd
      | None \<Rightarrow> try_layouts lib layouts d)"

definition normalizeDateYMD :: "'f golib \<Rightarrow> string \<Rightarrow> string" where
  "normalizeDateYMD lib d0 =
     (let d = TrimSpace d0 in
      if d = [] then []
      else if length d = 10 \<and> d ! 4 = CHR ''-'' \<and> d ! 7 = CHR ''-'' then d
      else case try_layouts lib date_layouts d of
             Some ymd \<Rightarrow> ymd
           | None \<Rightarrow> if length d \<ge> 10 then take 10 d else d)"

definition normalizeYMDDate :: "string \<Rightarrow> string" where
  "normalizeYMDDate d0 =
     (let d = TrimSpace d0 in
      if d = [] then []
      else if length d \<ge> 10 then take 10 d else d)"

subsection \<open>Items and taxes\<close>

definition extractICMS :: "('f::zero) golib \<Rightarrow> icmsGroup \<Rightarrow> 'f \<times> 'f \<times> 'f \<times> 'f" where
  "extractICMS lib g =
     (if ICMS00 g \<noteq> None then
        (parseFloat lib (iv_VBC (the (ICMS00 g))), parseFloat lib (iv_VICMS (the (ICMS00 g))), 0, 0)
      else if ICMS20 g \<noteq> None then
        (parseFloat lib (iv_VBC (the (ICMS20 g))), parseFloat lib (iv_VICMS (the (ICMS20 g))), 0, 0)
      else if ICMS51 g \<noteq> None then
        (parseFloat lib (iv_VBC (the (ICMS51 g))), parseFloat lib (iv_VICMS (the (ICMS51 g))), 0, 0)
      else if ICMS10 g \<noteq> None then
        (parseFloat lib (isv_VBC (the (ICMS10 g))), parseFloat lib (isv_VICMS (the (ICMS10 g))),
         parseFloat lib (isv_VBCST (the (ICMS10 g))), parseFloat lib (isv_VICMSST (the (ICMS10 g))))
      else if ICMS30 g \<noteq> None then
        (0, 0, parseFloat lib (isv_VBCST (the (ICMS30 g))), parseFloat lib (isv_VICMSST (the (ICMS30 g))))
      else if ICMS70 g \<noteq> None then
        (parseFloat lib (isv_VBC (the (ICMS70 g))), parseFloat lib (isv_VICMS (the (ICMS70 g))),
         parseFloat lib (isv_VBCST (the (ICMS70 g))), parseFloat lib (isv_VICMSST (the (ICMS70 g))))
      else if ICMS90 g \<noteq> None then
        (parseFloat lib (isv_VBC (the (ICMS90 g))), parseFloat lib (isv_VICMS (the (ICMS90 g))),
         parseFloat lib (isv_VBCST (the (ICMS90 g))), parseFloat lib (isv_VICMSST (the (ICMS90 g))))
      else if ICMSPart g \<noteq> None then
        (parseFloat lib (isv_VBC (the (ICMSPart g))), parseFloat lib (isv_VICMS (the (ICMSPart g))),
         parseFloat lib (isv_VBCST (the (ICMSPart g))), parseFloat lib (isv_VICMSST (the (ICMSPart g))))
      else if ICMSSN201 g \<noteq> None then
        (0, 0, parseFloat lib (isv_VBCST (the (ICMSSN201 g))), parseFloat lib (isv_VICMSST (the (ICMSSN201 g))))
      else if ICMSSN202 g \<noteq> None then
        (0, 0, parseFloat lib (isv_VBCST (the (ICMSSN202 g))), parseFloat lib (isv_VICMSST (the (ICMSSN202 g))))
      else if ICMSSN500 g \<noteq> None then
        (0, 0, parseFloat lib (iso_VBCST (the (ICMSSN500 g))), parseFloat lib (iso_VICMSST (the (ICMSSN500 g))))
      else if ICMSSN900 g \<noteq> None then
        (parseFloat lib (isv_VBC (the (ICMSSN900 g))), parseFloat lib (isv_VICMS (the (ICMSSN900 g))),
         parseFloat lib (isv_VBCST (the (ICMSSN900 g))), parseFloat lib (isv_VICMSST (the (ICMSSN900 g))))
      else (0, 0, 0, 0))"

definition extractIPI :: "('f::zero) golib \<Rightarrow> ipi option \<Rightarrow> 'f" where
  "extractIPI lib i =
     (case i of
        None \<Rightarrow> 0
      | Some i' \<Rightarrow> (case ipi_Trib i' of Some tr \<Rightarrow> parseFloat lib (ipiTrib_VIPI tr) | None \<Rightarrow> 0))"

definition pis_nonempty :: "pisVal option \<Rightarrow> bool" where
  "pis_nonempty x = (case x of Some pv \<Rightarrow> pisVal_VPIS pv \<noteq> [] | None \<Rightarrow> False)"

definition extractPIS :: "('f::zero) golib \<Rightarrow> pis option \<Rightarrow> 'f" where
  "extractPIS lib p =
     (case p of
        None \<Rightarrow> 0
      | Some p' \<Rightarrow>
          if pis_nonempty (pis_Aliq p') then parseFloat lib (pisVal_VPIS (the (pis_Aliq p')))
          else if pis_nonempty (pis_Qtde p') then parseFloat lib (pisVal_VPIS (the (pis_Qtde p')))
          else if pis_nonempty (pis_NT p') then parseFloat lib (pisVal_VPIS (the (pis_NT p')))
          else if pis_nonempty (pis_Outr p') then parseFloat lib (pisVal_VPIS (the (pis_Outr p')))
          else 0)"

definition cofins_nonempty :: "cofinsVal option \<Rightarrow> bool" where
  "cofins_nonempty x = (case x of Some cv \<Rightarrow> cofinsVal_VCOFINS cv \<noteq> [] | None \<Rightarrow> False)"

definition extractCOFINS :: "('f::zero) golib \<Rightarrow> cofins option \<Rightarrow> 'f" where
  "extractCOFINS lib c =
     (case c of
        None \<Rightarrow> 0
      | Some c' \<Rightarrow>
          if cofins_nonempty (cofins_Aliq c')
            then parseFloat lib (cofinsVal_VCOFINS (the (cofins_Aliq c')))
          else if cofins_nonempty (cofins_Qtde c')
            then parseFloat lib (cofinsVal_VCOFINS (the (cofins_Qtde c')))
          else if cofins_nonempty (cofins_NT c')
            then parseFloat lib (cofinsVal_VCOFINS (the (cofins_NT c')))
          else if cofins_nonempty (cofins_Outr c')
            then parseFloat lib (cofinsVal_VCOFINS (the (cofins_Outr c')))
          else 0)"

definition buildItemFromDet :: "('f::zero) golib \<Rightarrow> det \<Rightarrow> 'f ParsedItem" where
  "buildItemFromDet lib d =
     (case extractICMS lib (imp_ICMS (det_Imposto d)) of
        (bcICMS, vICMS, bcST, vICMSST) \<Rightarrow>
          \<lparr>it_NItem = parseInt lib (det_NItem d),
           it_Codigo = TrimSpace (prod_CProd (det_Prod d)),
           it_CodigoEAN = TrimSpace (prod_CEAN (det_Prod d)),
           it_Descricao = TrimSpace (prod_XProd (det_Prod d)),
           it_NCM = TrimSpace (prod_NCM (det_Prod d)),
           it_CFOP = TrimSpace (prod_CFOP (det_Prod d)),
           it_Unidade = TrimSpace (prod_UCom (det_Prod d)),
           it_Quantidade = parseFloat lib (prod_QCom (det_Prod d)),
           it_ValorUnitario = parseFloat lib (prod_VUnCom (det_Prod d)),
           it_ValorTotalBruto = parseFloat lib (prod_VProd (det_Prod d)),
           it_ValorFrete = parseFloat lib (prod_VFrete (det_Prod d)),
           it_ValorSeguro = parseFloat lib (prod_VSeg (det_Prod d)),
           it_ValorDesconto = parseFloat lib (prod_VDesc (det_Prod d)),
           it_ValorOutros = parseFloat lib (prod_VOutro (det_Prod d)),
           it_IndTotal = parseInt lib (prod_IndTot (det_Prod d)),
           it_BaseCalculoICMS = bcICMS,
           it_ValorICMS = vICMS,
           it_BaseCalculoICMSST = bcST,
           it_ValorICMSST = vICMSST,
           it_ValorIPI = extractIPI lib (imp_IPI (det_Imposto d)),
           it_ValorPIS = extractPIS lib (imp_PIS (det_Imposto d)),
           it_ValorCOFINS = extractCOFINS lib (imp_COFINS (det_Imposto d))\<rparr>)"

subsection \<open>\<open>buildParsedFrom\<close>\<close>

text \<open>The \<open>interface{}\<close> argument of \<open>buildParsedFrom\<close> and its type switch.\<close>

datatype go_value = V_nfeProc nfeProc | V_nfe nfe | V_other

definition buildDuplicata :: "('f::zero) golib \<Rightarrow> dup \<Rightarrow> 'f ParsedDuplicata" where
  "buildDuplicata lib du =
     \<lparr>du_Numero = TrimSpace (dup_Numero du),
      du_DataVencimento = normalizeYMDDate (dup_DVenc du),
      du_Valor = parseFloat lib (dup_Valor du)\<rparr>"

definition buildPagamento :: "('f::zero) golib \<Rightarrow> detPag \<Rightarrow> 'f ParsedPagamento" where
  "buildPagamento lib dp =
     \<lparr>pg_IndicadorPagamento =
        (if TrimSpace (detPag_IndPag dp) \<noteq> [] then Some (parseInt lib (detPag_IndPag dp))
         else None),
      pg_MeioPagamento = TrimSpace (detPag_Meio dp),
      pg_Valor = parseFloat lib (detPag_Valor dp),
      pg_CNPJCredenciadora =
        (case detPag_Card dp of Some c \<Rightarrow> onlyDigits (card_CNPJ c) | None \<Rightarrow> []),
      pg_BandeiraCartao =
        (case detPag_Card dp of Some c \<Rightarrow> TrimSpace (card_Bandeira c) | None \<Rightarrow> []),
      pg_CodigoAutorizacao =
        (case detPag_Card dp of Some c \<Rightarrow> TrimSpace (card_Aut c) | None \<Rightarrow> [])\<rparr>"

text \<open>The access key: from the protocol when it gives digits, else from the \<open>Id\<close>.\<close>

definition build_chave :: "infNFe \<Rightarrow> protNFe option \<Rightarrow> string" where
  "build_chave nf prot =
     (let chave =
        (case prot of
           Some pr \<Rightarrow>
             if infProt_ChNFe (prot_InfProt pr) \<noteq> []
             then onlyDigits (infProt_ChNFe (prot_InfProt pr)) else []
         | None \<Rightarrow> [])
      in if chave = [] then onlyDigits (extractChave (inf_ID nf)) else chave)"

definition build_emissao :: "infNFe \<Rightarrow> string" where
  "build_emissao nf =
     (if ide_DhEmi (inf_Ide nf) = [] then ide_DEmi (inf_Ide nf) else ide_DhEmi (inf_Ide nf))"

definition build_from :: "('f::zero) golib \<Rightarrow> infNFe \<Rightarrow> protNFe option \<Rightarrow> string \<Rightarrow> string \<Rightarrow> 'f ParsedNFe" where
  "build_from lib nf prot xmlRaw hashHex =
     \<lparr>ChaveAcesso = build_chave nf prot,
      HashIntegridade = hashHex,
      Modelo = ide_Modelo (inf_Ide nf),
      Serie = ide_Serie (inf_Ide nf),
      Numero = ide_NNF (inf_Ide nf),
      EmissaoDate = normalizeDateYMD lib (build_emissao nf),
      TipoOperacao = ide_TpNF (inf_Ide nf),
      TipoAmbiente = ide_TpAmb (inf_Ide nf),
      NaturezaOperacao = TrimSpace (ide_NatOp (inf_Ide nf)),
      ProtocoloAut =
        (case prot of Some pr \<Rightarrow> TrimSpace (infProt_NProt (prot_InfProt pr)) | None \<Rightarrow> []),
      DataAutorizacao =
        (case prot of
           Some pr \<Rightarrow> normalizeDateYMD lib (infProt_DhRecb (prot_InfProt pr))
         | None \<Rightarrow> []),
      CodigoStatus =
        (case prot of Some pr \<Rightarrow> parseInt lib (infProt_CStat (prot_InfProt pr)) | None \<Rightarrow> 0),
      EmitenteCNPJ = onlyDigits (emit_CNPJ (inf_Emit nf)),
      EmitenteRazao = TrimSpace (emit_XNome (inf_Emit nf)),
      DestCNPJCPF =
        (case inf_Dest nf of
           Some de \<Rightarrow> onlyDigits (if dest_CNPJ de = [] then dest_CPF de else dest_CNPJ de)
         | None \<Rightarrow> []),
      DestRazao = (case inf_Dest nf of Some de \<Rightarrow> TrimSpace (dest_XNome de) | None \<Rightarrow> []),
      ValorTotalNota = parseFloat lib (tot_VNF (total_ICMSTot (inf_Total nf))),
      ValorProdutos = parseFloat lib (tot_VProd (total_ICMSTot (inf_Total nf))),
      ValorDesconto = parseFloat lib (tot_VDesc (total_ICMSTot (inf_Total nf))),
      ValorICMS = parseFloat lib (tot_VICMS (total_ICMSTot (inf_Total nf))),
      ValorIPI = parseFloat lib (tot_VIPI (total_ICMSTot (inf_Total nf))),
      ValorPIS = parseFloat lib (tot_VPIS (total_ICMSTot (inf_Total nf))),
      ValorCOFINS = parseFloat lib (tot_VCOFINS (total_ICMSTot (inf_Total nf))),
      ValorII = parseFloat lib (tot_VII (total_ICMSTot (inf_Total nf))),
      ValorFrete = parseFloat lib (tot_VFrete (total_ICMSTot (inf_Total nf))),
      ValorSeguro = parseFloat lib (tot_VSeg (total_ICMSTot (inf_Total nf))),
      ModalidadeFrete =
        (case inf_Transp nf of Some tr \<Rightarrow> parseInt lib (transp_ModFrete tr) | None \<Rightarrow> 0),
      XMLRaw = xmlRaw,
      Itens = map (buildItemFromDet lib) (inf_Det nf),
      Duplicatas =
        (case inf_Cobr nf of
           Some co \<Rightarrow> map (buildDuplicata lib) (cobr_Duplicatas co)
         | None \<Rightarrow> []),
      Pagamentos =
        (case inf_Pag nf of Some pa \<Rightarrow> map (buildPagamento lib) (pag_Det pa) | None \<Rightarrow> [])\<rparr>"

definition buildParsedFrom ::
  "('f::zero) golib \<Rightarrow> go_value \<Rightarrow> string \<Rightarrow> string \<Rightarrow> parse_error + 'f ParsedNFe" where
  "buildParsedFrom lib v xmlRaw hashHex =
     (case v of
        V_nfeProc t \<Rightarrow> Inr (build_from lib (nfe_InfNFe (proc_NFe t)) (proc_ProtNFe t) xmlRaw hashHex)
      | V_nfe t \<Rightarrow> Inr (build_from lib (nfe_InfNFe t) None xmlRaw hashHex)
      | V_other \<Rightarrow> Inl ErrUnexpectedType)"

subsection \<open>XSD validation and \<open>ParseFile\<close>\<close>

definition validateXMLWithXSD :: "world \<Rightarrow> string \<Rightarrow> string \<Rightarrow> parse_error option" where
  "validateXMLWithXSD w xmlData xsdPath =
     (case os_Stat w xsdPath of
        Some err \<Rightarrow> Some (ErrXsdNotFound xsdPath err)
      | None \<Rightarrow>
     (case xsd_Init w of
        Some err \<Rightarrow> Some (ErrXsdInit err)
      | None \<Rightarrow>
     (case xsd_NewXsdHandlerUrl w xsdPath of
        Some err \<Rightarrow> Some (ErrXsdLoad xsdPath err)
      | None \<Rightarrow>
     (case xsd_ValidateMem w xsdPath xmlData of
        Some err \<Rightarrow> Some (ErrXsdInvalid xsdPath err)
      | None \<Rightarrow> None))))"

definition resolveXSDPath :: "'f golib \<Rightarrow> string \<Rightarrow> string \<Rightarrow> parse_error + string" where
  "resolveXSDPath lib baseDir xsdFile =
     (if xsdFile = [] then Inl ErrXsdMainUndefined
      else if filepath_IsAbs lib xsdFile then Inr xsdFile
      else Inr (filepath_Join lib baseDir xsdFile))"

text \<open>The optional validation block of \<open>ParseFile\<close>, controlled by the environment.\<close>

definition xsd_stage :: "'f golib \<Rightarrow> world \<Rightarrow> string \<Rightarrow> parse_error option" where
  "xsd_stage lib w data =
     (let xsdEnabled = strings_ToLower lib (os_Getenv w ''NFE_XSD_ENABLED'') in
      if xsdEnabled = ''true'' \<or> xsdEnabled = ''1'' \<or> xsdEnabled = ''yes'' then
        let xsdDir = os_Getenv w ''NFE_XSD_DIR'';
            xsdMain = os_Getenv w ''NFE_XSD_MAIN''
        in if xsdDir = [] then Some ErrXsdDirUnset
           else if xsdMain = [] then Some ErrXsdMainUnset
           else case resolveXSDPath lib xsdDir xsdMain of
                  Inl err \<Rightarrow> Some err
                | Inr xsdPath \<Rightarrow> validateXMLWithXSD w data xsdPath
      else None)"

text \<open>The two unmarshal attempts with their acceptance test \<open>err == nil && Modelo != 0\<close>.\<close>

definition accept_nfeProc :: "'f golib \<Rightarrow> string \<Rightarrow> nfeProc option" where
  "accept_nfeProc lib data =
     (case xml_Unmarshal_nfeProc lib data of
        Some proc \<Rightarrow>
          if ide_Modelo (inf_Ide (nfe_InfNFe (proc_NFe proc))) \<noteq> 0 then Some proc else None
      | None \<Rightarrow> None)"

definition accept_nfe :: "'f golib \<Rightarrow> string \<Rightarrow> nfe option" where
  "accept_nfe lib data =
     (case xml_Unmarshal_nfe lib data of
        Some n \<Rightarrow> if ide_Modelo (inf_Ide (nfe_InfNFe n)) \<noteq> 0 then Some n else None
      | None \<Rightarrow> None)"

definition ParseFile :: "('f::zero) golib \<Rightarrow> world \<Rightarrow> string \<Rightarrow> parse_error + 'f ParsedNFe" where
  "ParseFile lib w path =
     (case os_ReadFile w path of
        Inl err \<Rightarrow> Inl (ErrReadXML path err)
      | Inr data \<Rightarrow>
          let hashHex = sha256_hex lib data in
          case xsd_stage lib w data of
            Some err \<Rightarrow> Inl err
          | None \<Rightarrow>
              (case accept_nfeProc lib data of
                 Some proc \<Rightarrow> buildParsedFrom lib (V_nfeProc proc) data hashHex
               | None \<Rightarrow>
                   (case accept_nfe lib data of
                      Some n \<Rightarrow> buildParsedFrom lib (V_nfe n) data hashHex
                    | None \<Rightarrow> Inl (ErrNotRecognized path))))"

subsection \<open>Notions used to state the parser's properties\<close>

text \<open>The record \<open>ParseFile\<close> builds from: the first accepted unmarshal attempt.\<close>

definition accepted_record :: "'f golib \<Rightarrow> string \<Rightarrow> (infNFe \<times> protNFe option) option" where
  "accepted_record lib data =
     (case accept_nfeProc lib data of
        Some proc \<Rightarrow> Some (nfe_InfNFe (proc_NFe proc), proc_ProtNFe proc)
      | None \<Rightarrow>
          (case accept_nfe lib data of
             Some n \<Rightarrow> Some (nfe_InfNFe n, None)
           | None \<Rightarrow> None))"









text \<open>The four ICMS values of a parsed item.\<close>

definition item_icms :: "'f ParsedItem \<Rightarrow> 'f \<times> 'f \<times> 'f \<times> 'f" where
  "item_icms it =
     (it_BaseCalculoICMS it, it_ValorICMS it, it_BaseCalculoICMSST it, it_ValorICMSST it)"

text \<open>
  The schema configuration of a run on the bytes \<open>data\<close>: the three environment variables
  and what the validator answers for the schema file they name.
\<close>

definition schema_path :: "'f golib \<Rightarrow> world \<Rightarrow> string" where
  "schema_path lib w =
     (case resolveXSDPath lib (os_Getenv w ''NFE_XSD_DIR'') (os_Getenv w ''NFE_XSD_MAIN'') of
        Inr xsdPath \<Rightarrow> xsdPath
      | Inl err \<Rightarrow> [])"

definition schema_config ::
  "'f golib \<Rightarrow> world \<Rightarrow> string \<Rightarrow> string list \<times> string option list" where
  "schema_config lib w data =
     ([os_Getenv w ''NFE_XSD_ENABLED'', os_Getenv w ''NFE_XSD_DIR'', os_Getenv w ''NFE_XSD_MAIN''],
      [os_Stat w (schema_path lib w), xsd_Init w, xsd_NewXsdHandlerUrl w (schema_path lib w),
       xsd_ValidateMem w (schema_path lib w) data])"

text \<open>An error without the file name it quotes.\<close>

definition forget_path :: "parse_error \<Rightarrow> parse_error" where
  "forget_path e =
     (case e of
        ErrReadXML path err \<Rightarrow> ErrReadXML [] err
      | ErrNotRecognized path \<Rightarrow> ErrNotRecognized []
      | _ \<Rightarrow> e)"

subsection \<open>The ICMS table of the specification\<close>

text \<open>
  The recognised sub-elements of \<open>imposto/ICMS\<close> and what each fills, as the table of the
  specification gives it: \<open>base_icms\<close> and \<open>value_icms\<close> for ICMS00, ICMS20 and ICMS51; all
  four for ICMS10, ICMS70, ICMS90, ICMSPart and ICMSSN900; \<open>base_icms_st\<close> and
  \<open>value_icms_st\<close> for ICMS30, ICMSSN201, ICMSSN202 and ICMSSN500; nothing for ICMS40,
  ICMSSN101 and ICMSSN102.
\<close>

datatype icms_variant =
    V_ICMS00 | V_ICMS20 | V_ICMS51
  | V_ICMS10 | V_ICMS70 | V_ICMS90 | V_ICMSPart | V_ICMSSN900
  | V_ICMS30 | V_ICMSSN201 | V_ICMSSN202 | V_ICMSSN500
  | V_ICMS40 | V_ICMSSN101 | V_ICMSSN102

definition fill_base_value :: "('f::zero) golib \<Rightarrow> icmsVal \<Rightarrow> 'f \<times> 'f \<times> 'f \<times> 'f" where
  "fill_base_value lib x = (parseFloat lib (iv_VBC x), parseFloat lib (iv_VICMS x), 0, 0)"

definition fill_all_four :: "('f::zero) golib \<Rightarrow> icmsSTVal \<Rightarrow> 'f \<times> 'f \<times> 'f \<times> 'f" where
  "fill_all_four lib x =
     (parseFloat lib (isv_VBC x), parseFloat lib (isv_VICMS x),
      parseFloat lib (isv_VBCST x), parseFloat lib (isv_VICMSST x))"

definition fill_st :: "('f::zero) golib \<Rightarrow> icmsSTVal \<Rightarrow> 'f \<times> 'f \<times> 'f \<times> 'f" where
  "fill_st lib x = (0, 0, parseFloat lib (isv_VBCST x), parseFloat lib (isv_VICMSST x))"

definition fill_st_only :: "('f::zero) golib \<Rightarrow> icmsSTOnly \<Rightarrow> 'f \<times> 'f \<times> 'f \<times> 'f" where
  "fill_st_only lib x = (0, 0, parseFloat lib (iso_VBCST x), parseFloat lib (iso_VICMSST x))"

fun variant_fill :: "('f::zero) golib \<Rightarrow> icmsGroup \<Rightarrow> icms_variant \<Rightarrow> ('f \<times> 'f \<times> 'f \<times> 'f) option" where
  "variant_fill lib g V_ICMS00 = map_option (fill_base_value lib) (ICMS00 g)"
| "variant_fill lib g V_ICMS20 = map_option (fill_base_value lib) (ICMS20 g)"
| "variant_fill lib g V_ICMS51 = map_option (fill_base_value lib) (ICMS51 g)"
| "variant_fill lib g V_ICMS10 = map_option (fill_all_four lib) (ICMS10 g)"
| "variant_fill lib g V_ICMS70 = map_option (fill_all_four lib) (ICMS70 g)"
| "variant_fill lib g V_ICMS90 = map_option (fill_all_four lib) (ICMS90 g)"
| "variant_fill lib g V_ICMSPart = map_option (fill_all_four lib) (ICMSPart g)"
| "variant_fill lib g V_ICMSSN900 = map_option (fill_all_four lib) (ICMSSN900 g)"
| "variant_fill lib g V_ICMS30 = map_option (fill_st lib) (ICMS30 g)"
| "variant_fill lib g V_ICMSSN201 = map_option (fill_st lib) (ICMSSN201 g)"
| "variant_fill lib g V_ICMSSN202 = map_option (fill_st lib) (ICMSSN202 g)"
| "variant_fill lib g V_ICMSSN500 = map_option (fill_st_only lib) (ICMSSN500 g)"
| "variant_fill lib g V_ICMS40 = map_option (\<lambda>x. (0, 0, 0, 0)) (ICMS40 g)"
| "variant_fill lib g V_ICMSSN101 = map_option (\<lambda>x. (0, 0, 0, 0)) (ICMSSN101 g)"
| "variant_fill lib g V_ICMSSN102 = map_option (\<lambda>x. (0, 0, 0, 0)) (ICMSSN102 g)"

text \<open>The tuple of the first variant of the list that is present; zeros when none is.\<close>

fun first_present :: "('f::zero) golib \<Rightarrow> icmsGroup \<Rightarrow> icms_variant list \<Rightarrow> 'f \<times> 'f \<times> 'f \<times> 'f" where
  "first_present lib g [] = (0, 0, 0, 0)"
| "first_present lib g (v # vs) =
     (case variant_fill lib g v of Some t \<Rightarrow> t | None \<Rightarrow> first_present lib g vs)"

text \<open>The priority order as the specification's table lists the variants, row by row.\<close>

definition spec_order :: "icms_variant list" where
  "spec_order =
     [V_ICMS00, V_ICMS20, V_ICMS51,
      V_ICMS10, V_ICMS70, V_ICMS90, V_ICMSPart, V_ICMSSN900,
      V_ICMS30, V_ICMSSN201, V_ICMSSN202, V_ICMSSN500,
      V_ICMS40, V_ICMSSN101, V_ICMSSN102]"

definition spec_extractICMS :: "('f::zero) golib \<Rightarrow> icmsGroup \<Rightarrow> 'f \<times> 'f \<times> 'f \<times> 'f" where
  "spec_extractICMS lib g = first_present lib g spec_order"

text \<open>The order in which \<open>extractICMS\<close> tests the variants.\<close>

definition source_order :: "icms_variant list" where
  "source_order =
     [V_ICMS00, V_ICMS20, V_ICMS51, V_ICMS10, V_ICMS30, V_ICMS70, V_ICMS90, V_ICMSPart,
      V_ICMSSN201, V_ICMSSN202, V_ICMSSN500, V_ICMSSN900]"

section \<open>Persister (package storage)\<close>

subsection \<open>The database as the code sees it\<close>

text \<open>
  The relational store is an external collaborator. A statement's parameters are a row of
  SQL values; a table is the list of rows inserted into it. What the database answers to a
  statement (success, a \<open>pgconn.PgError\<close> with its SQL state, or any other driver error) is
  given by \<open>db_env\<close>: the answer to \<open>Begin\<close>, to the k-th statement of the transaction, to
  \<open>Commit\<close>, and the id that \<open>RETURNING id\<close> yields.
  A transaction works on a copy of the store; \<open>Commit\<close> installs the copy and
  \<open>Rollback\<close> drops it. A \<open>Commit\<close> that fails installs nothing: the store stays as it
  was before \<open>Begin\<close>.
\<close>

datatype 'f sql_value = SqlNull | SqlText string | SqlInt int | SqlFloat 'f

type_synonym 'f sql_row = "'f sql_value list"

datatype table = T_nfe | T_nfe_xml | T_nfe_item | T_nfe_duplicatas | T_nfe_pagamentos

type_synonym 'f store = "table \<Rightarrow> 'f sql_row list"

datatype db_error = PgError string | DriverError string

record db_env =
  begin_err :: "db_error option"
  stmt_err :: "nat \<Rightarrow> db_error option"
  returned_id :: int
  commit_err :: "db_error option"

datatype tx_status = TxActive | TxCommitted | TxRolledBack

record 'f tx =
  tx_base :: "'f store"
  tx_work :: "'f store"
  tx_count :: nat
  tx_status :: tx_status

definition db_Begin :: "db_env \<Rightarrow> 'f store \<Rightarrow> db_error + 'f tx" where
  "db_Begin env db =
     (case begin_err env of
        Some e \<Rightarrow> Inl e
      | None \<Rightarrow> Inr \<lparr>tx_base = db, tx_work = db, tx_count = 0, tx_status = TxActive\<rparr>)"

definition tx_Exec :: "db_env \<Rightarrow> 'f tx \<Rightarrow> table \<Rightarrow> 'f sql_row \<Rightarrow> 'f tx \<times> db_error option" where
  "tx_Exec env t tbl row =
     (case stmt_err env (tx_count t) of
        Some e \<Rightarrow> (t\<lparr>tx_count := Suc (tx_count t)\<rparr>, Some e)
      | None \<Rightarrow>
          (t\<lparr>tx_work := (tx_work t)(tbl := tx_work t tbl @ [row]),
              tx_count := Suc (tx_count t)\<rparr>, None))"

text \<open>\<open>tx.QueryRow(INSERT ... RETURNING id).Scan(&id)\<close>: the row is stored with its id.\<close>

definition tx_QueryRow :: "db_env \<Rightarrow> 'f tx \<Rightarrow> table \<Rightarrow> 'f sql_row \<Rightarrow> 'f tx \<times> (db_error + int)" where
  "tx_QueryRow env t tbl row =
     (case tx_Exec env t tbl (SqlInt (returned_id env) # row) of
        (t', Some e) \<Rightarrow> (t', Inl e)
      | (t', None) \<Rightarrow> (t', Inr (returned_id env)))"

definition tx_Commit :: "db_env \<Rightarrow> 'f tx \<Rightarrow> 'f tx \<times> db_error option" where
  "tx_Commit env t =
     (case commit_err env of
        Some e \<Rightarrow> (t\<lparr>tx_status := TxRolledBack\<rparr>, Some e)
      | None \<Rightarrow> (t\<lparr>tx_status := TxCommitted\<rparr>, None))"

text \<open>\<open>tx.Rollback()\<close> on a transaction that is already finished changes nothing.\<close>

definition tx_Rollback :: "'f tx \<Rightarrow> 'f tx" where
  "tx_Rollback t = (if tx_status t = TxActive then t\<lparr>tx_status := TxRolledBack\<rparr> else t)"

text \<open>The store once the transaction is over.\<close>

definition tx_store :: "'f tx \<Rightarrow> 'f store" where
  "tx_store t = (if tx_status t = TxCommitted then tx_work t else tx_base t)"

subsection \<open>The insert steps\<close>

datatype save_error =
    ErrNFeAlreadyExists
  | ErrBegin db_error
  | ErrEmissaoVazia string
  | ErrInsertNFe string db_error
  | ErrInsertNFeXML int db_error
  | ErrInsertItem int int db_error
  | ErrInsertDuplicata int string db_error
  | ErrInsertPagamento int string db_error
  | ErrCommit db_error

definition toNullDate :: "string \<Rightarrow> 'f sql_value" where
  "toNullDate s = (let s' = TrimSpace s in if s' = [] then SqlNull else SqlText s')"

definition nullableString :: "string \<Rightarrow> 'f sql_value" where
  "nullableString s = (let s' = TrimSpace s in if s' = [] then SqlNull else SqlText s')"

definition isUniqueViolation :: "db_error \<Rightarrow> bool" where
  "isUniqueViolation err = (case err of PgError code \<Rightarrow> code = ''23505'' | DriverError _ \<Rightarrow> False)"

definition insertNFe :: "db_env \<Rightarrow> 'f tx \<Rightarrow> 'f ParsedNFe \<Rightarrow> 'f tx \<times> (save_error + int)" where
  "insertNFe env t p =
     (let emissao = TrimSpace (EmissaoDate p) in
      if emissao = [] then (t, Inl (ErrEmissaoVazia (ChaveAcesso p)))
      else
        let dataAut = toNullDate (DataAutorizacao p) in
        case tx_QueryRow env t T_nfe
               [SqlText (ChaveAcesso p), SqlText (HashIntegridade p), SqlInt (Modelo p),
                SqlInt (Serie p), SqlInt (Numero p), SqlText emissao,
                SqlInt (TipoOperacao p), SqlInt (TipoAmbiente p),
                SqlText (NaturezaOperacao p), nullableString (ProtocoloAut p), dataAut,
                SqlInt (CodigoStatus p), SqlText (EmitenteCNPJ p), SqlText (EmitenteRazao p),
                nullableString (DestCNPJCPF p), nullableString (DestRazao p),
                SqlFloat (ValorTotalNota p), SqlFloat (ValorProdutos p),
                SqlFloat (ValorDesconto p), SqlFloat (ValorICMS p), SqlFloat (ValorIPI p),
                SqlFloat (ValorPIS p), SqlFloat (ValorCOFINS p), SqlFloat (ValorII p),
                SqlFloat (ValorFrete p), SqlFloat (ValorSeguro p),
                SqlInt (ModalidadeFrete p)] of
          (t', Inl err) \<Rightarrow>
            if isUniqueViolation err then (t', Inl ErrNFeAlreadyExists)
            else (t', Inl (ErrInsertNFe (ChaveAcesso p) err))
        | (t', Inr nfeID) \<Rightarrow> (t', Inr nfeID))"

definition insertNFeXML :: "db_env \<Rightarrow> 'f tx \<Rightarrow> int \<Rightarrow> 'f ParsedNFe \<Rightarrow> 'f tx \<times> save_error option" where
  "insertNFeXML env t nfeID p =
     (case tx_Exec env t T_nfe_xml [SqlInt nfeID, SqlText (XMLRaw p), SqlNull] of
        (t', Some err) \<Rightarrow> (t', Some (ErrInsertNFeXML nfeID err))
      | (t', None) \<Rightarrow> (t', None))"

definition item_row :: "int \<Rightarrow> 'f ParsedItem \<Rightarrow> 'f sql_row" where
  "item_row nfeID it =
     [SqlInt nfeID, SqlInt (it_NItem it), nullableString (it_Codigo it),
      nullableString (it_CodigoEAN it), nullableString (it_Descricao it),
      nullableString (it_NCM it), nullableString (it_CFOP it), nullableString (it_Unidade it),
      SqlFloat (it_Quantidade it), SqlFloat (it_ValorUnitario it),
      SqlFloat (it_ValorTotalBruto it), SqlFloat (it_ValorFrete it),
      SqlFloat (it_ValorSeguro it), SqlFloat (it_ValorDesconto it),
      SqlFloat (it_ValorOutros it), SqlInt (it_IndTotal it),
      SqlFloat (it_BaseCalculoICMS it), SqlFloat (it_ValorICMS it),
      SqlFloat (it_BaseCalculoICMSST it), SqlFloat (it_ValorICMSST it),
      SqlFloat (it_ValorIPI it), SqlFloat (it_ValorPIS it), SqlFloat (it_ValorCOFINS it)]"

fun insertItens :: "db_env \<Rightarrow> 'f tx \<Rightarrow> int \<Rightarrow> 'f ParsedItem list \<Rightarrow> 'f tx \<times> save_error option" where
  "insertItens env t nfeID [] = (t, None)"
| "insertItens env t nfeID (it # itens) =
     (case tx_Exec env t T_nfe_item (item_row nfeID it) of
        (t', Some err) \<Rightarrow> (t', Some (ErrInsertItem (it_NItem it) nfeID err))
      | (t', None) \<Rightarrow> insertItens env t' nfeID itens)"

definition duplicata_row :: "int \<Rightarrow> 'f ParsedDuplicata \<Rightarrow> 'f sql_row" where
  "duplicata_row nfeID d =
     [SqlInt nfeID, nullableString (du_Numero d), toNullDate (du_DataVencimento d),
      SqlFloat (du_Valor d)]"

fun insertDuplicatas :: "db_env \<Rightarrow> 'f tx \<Rightarrow> int \<Rightarrow> 'f ParsedDuplicata list \<Rightarrow> 'f tx \<times> save_error option" where
  "insertDuplicatas env t nfeID [] = (t, None)"
| "insertDuplicatas env t nfeID (d # dups) =
     (case tx_Exec env t T_nfe_duplicatas (duplicata_row nfeID d) of
        (t', Some err) \<Rightarrow> (t', Some (ErrInsertDuplicata nfeID (du_Numero d) err))
      | (t', None) \<Rightarrow> insertDuplicatas env t' nfeID dups)"

definition pagamento_row :: "int \<Rightarrow> 'f ParsedPagamento \<Rightarrow> 'f sql_row" where
  "pagamento_row nfeID pg =
     [SqlInt nfeID,
      (case pg_IndicadorPagamento pg of Some ind \<Rightarrow> SqlInt ind | None \<Rightarrow> SqlNull),
      nullableString (pg_MeioPagamento pg), SqlFloat (pg_Valor pg),
      nullableString (pg_CNPJCredenciadora pg), nullableString (pg_BandeiraCartao pg),
      nullableString (pg_CodigoAutorizacao pg)]"

fun insertPagamentos :: "db_env \<Rightarrow> 'f tx \<Rightarrow> int \<Rightarrow> 'f ParsedPagamento list \<Rightarrow> 'f tx \<times> save_error option" where
  "insertPagamentos env t nfeID [] = (t, None)"
| "insertPagamentos env t nfeID (pg # pags) =
     (case tx_Exec env t T_nfe_pagamentos (pagamento_row nfeID pg) of
        (t', Some err) \<Rightarrow> (t', Some (ErrInsertPagamento nfeID (pg_MeioPagamento pg) err))
      | (t', None) \<Rightarrow> insertPagamentos env t' nfeID pags)"

text \<open>
  The body of \<open>SaveNFeWithRelations\<close> after \<open>Begin\<close>: it returns the transaction and the
  named results \<open>(nfeID, err)\<close> as a sum.
\<close>

definition save_body :: "db_env \<Rightarrow> 'f tx \<Rightarrow> 'f ParsedNFe \<Rightarrow> 'f tx \<times> (save_error + int)" where
  "save_body env t0 p =
     (case insertNFe env t0 p of
        (t1, Inl err) \<Rightarrow> (t1, Inl err)
      | (t1, Inr nfeID) \<Rightarrow>
     (case insertNFeXML env t1 nfeID p of
        (t2, Some err) \<Rightarrow> (t2, Inl err)
      | (t2, None) \<Rightarrow>
     (case insertItens env t2 nfeID (Itens p) of
        (t3, Some err) \<Rightarrow> (t3, Inl err)
      | (t3, None) \<Rightarrow>
     (case insertDuplicatas env t3 nfeID (Duplicatas p) of
        (t4, Some err) \<Rightarrow> (t4, Inl err)
      | (t4, None) \<Rightarrow>
     (case insertPagamentos env t4 nfeID (Pagamentos p) of
        (t5, Some err) \<Rightarrow> (t5, Inl err)
      | (t5, None) \<Rightarrow>
     (case tx_Commit env t5 of
        (t6, Some err) \<Rightarrow> (t6, Inl (ErrCommit err))
      | (t6, None) \<Rightarrow> (t6, Inr nfeID)))))))"

text \<open>
  The deferred function runs when the body returns: with \<open>err \<noteq> nil\<close> it rolls back.
  The result is the transaction as it ended (\<open>None\<close> when \<open>Begin\<close> failed) and the
  returned pair.
\<close>

definition SaveNFeWithRelations ::
  "db_env \<Rightarrow> 'f store \<Rightarrow> 'f ParsedNFe \<Rightarrow> 'f tx option \<times> (save_error + int)" where
  "SaveNFeWithRelations env db p =
     (case db_Begin env db of
        Inl e \<Rightarrow> (None, Inl (ErrBegin e))
      | Inr t0 \<Rightarrow>
          (case save_body env t0 p of
             (t, Inl err) \<Rightarrow> (Some (tx_Rollback t), Inl err)
           | (t, Inr nfeID) \<Rightarrow> (Some t, Inr nfeID)))"

text \<open>The store after the call.\<close>

definition store_after :: "'f store \<Rightarrow> 'f tx option \<Rightarrow> 'f store" where
  "store_after db r = (case r of None \<Rightarrow> db | Some t \<Rightarrow> tx_store t)"

section \<open>Job broker client (package queue)\<close>

record Job =
  job_Path :: string
  job_Filename :: string
  job_Kind :: string

text \<open>
  The values an \<open>amqp.Table\<close> can hold (the field types of the AMQP client library). Go's
  \<open>int\<close> and \<open>int64\<close> are 64-bit words, \<open>int32\<close> a 32-bit word; \<open>'f\<close> is a floating-point
  value. A \<open>nil\<close> table is \<open>None\<close>.
\<close>

datatype 'f amqp_value =
    A_nil
  | A_bool bool
  | A_byte "8 word"
  | A_int8 "8 word"
  | A_int16 "16 word"
  | A_int "64 word"
  | A_int32 "32 word"
  | A_int64 "64 word"
  | A_float32 'f
  | A_float64 'f
  | A_string string
  | A_bytes string
  | A_decimal "8 word" "32 word"
  | A_time int
  | A_table "(string \<times> 'f amqp_value) list"
  | A_array "'f amqp_value list"

type_synonym 'f amqp_Table = "string \<rightharpoonup> 'f amqp_value"

record 'f Delivery =
  dl_Body :: string
  dl_Headers :: "'f amqp_Table option"

record 'f Publishing =
  pub_ContentType :: string
  pub_Body :: string
  pub_Persistent :: bool
  pub_Headers :: "'f amqp_Table"

text \<open>What the client does on the channel, in order.\<close>

datatype 'f broker_event =
    Ev_Publish "'f Publishing"
  | Ev_Ack bool
  | Ev_Nack bool bool

record RabbitMQ =
  rmq_queueName :: string
  rmq_maxRetries :: "64 word"
  rmq_prefetch :: "64 word"

text \<open>
  The retry budget \<open>NewRabbitMQ\<close> sets: 3, or the value of
  \<open>NFE_DROP_RABBITMQ_MAX_RETRIES\<close> when it reads as a positive integer
  (\<open>atoi\<close> is \<open>strconv.Atoi\<close>, \<open>None\<close> for an error).
\<close>

definition config_maxRetries :: "(string \<Rightarrow> string) \<Rightarrow> (string \<Rightarrow> 64 word option) \<Rightarrow> 64 word" where
  "config_maxRetries getenv atoi =
     (let v = getenv ''NFE_DROP_RABBITMQ_MAX_RETRIES'' in
      if v \<noteq> [] then
        (case atoi v of Some n \<Rightarrow> if 0 <s n then n else 3 | None \<Rightarrow> 3)
      else 3)"

text \<open>
  \<open>extractRetries\<close>: the type switch over the header's value. \<open>float_to_int\<close> is Go's
  conversion \<open>int(t)\<close> of a floating-point value.
\<close>

definition extractRetries :: "('f \<Rightarrow> 64 word) \<Rightarrow> 'f amqp_Table option \<Rightarrow> 64 word" where
  "extractRetries float_to_int h =
     (case h of
        None \<Rightarrow> 0
      | Some tbl \<Rightarrow>
          (case tbl ''x-retries'' of
             None \<Rightarrow> 0
           | Some v \<Rightarrow>
               (case v of
                  A_int32 t \<Rightarrow> scast t
                | A_int64 t \<Rightarrow> t
                | A_float32 t \<Rightarrow> float_to_int t
                | A_float64 t \<Rightarrow> float_to_int t
                | _ \<Rightarrow> 0)))"

text \<open>
  \<open>publish\<close>: the message handed to \<open>PublishWithContext\<close> and the error returned; the
  broker's answer (publish error, confirmation, refusal or deadline) is \<open>outcome\<close>.
\<close>

datatype pub_outcome = Pub_Confirmed | Pub_Error string | Pub_NotConfirmed | Pub_CtxDone

definition publish ::
  "('f Publishing \<Rightarrow> pub_outcome) \<Rightarrow> string \<Rightarrow> 'f amqp_Table option
     \<Rightarrow> 'f broker_event list \<times> string option" where
  "publish outcome body headers0 =
     (let headers1 = (case headers0 of None \<Rightarrow> Map.empty | Some h \<Rightarrow> h);
          headers = (if headers1 ''x-retries'' = None
                     then headers1(''x-retries'' \<mapsto> A_int32 0) else headers1);
          msg = \<lparr>pub_ContentType = ''application/json'', pub_Body = body,
                 pub_Persistent = True, pub_Headers = headers\<rparr>
      in ([Ev_Publish msg],
          (case outcome msg of
             Pub_Error e \<Rightarrow> Some e
           | Pub_NotConfirmed \<Rightarrow> Some ''mensagem nao confirmada pelo broker''
           | Pub_CtxDone \<Rightarrow> Some ''context deadline exceeded''
           | Pub_Confirmed \<Rightarrow> None)))"

text \<open>
  The environment of the consumer: \<open>json.Unmarshal\<close> of a body into a \<open>Job\<close>, the
  handler (\<open>Some\<close> error or \<open>None\<close>), the conversion of floats and the broker's answers.
\<close>

record 'f consumer_env =
  json_Unmarshal_Job :: "string \<Rightarrow> Job option"
  handler :: "Job \<Rightarrow> string option"
  float_to_int :: "'f \<Rightarrow> 64 word"
  pub_answer :: "'f Publishing \<Rightarrow> pub_outcome"

text \<open>The body of the loop of \<open>ConsumeJobs\<close> for one delivery.\<close>

definition consume_delivery :: "RabbitMQ \<Rightarrow> 'f consumer_env \<Rightarrow> 'f Delivery \<Rightarrow> 'f broker_event list" where
  "consume_delivery r env msg =
     (case json_Unmarshal_Job env (dl_Body msg) of
        None \<Rightarrow> [Ev_Ack False]
      | Some job \<Rightarrow>
          (case handler env job of
             Some err \<Rightarrow>
               let retries = extractRetries (float_to_int env) (dl_Headers msg) in
               if retries <s rmq_maxRetries r then
                 let headers0 = (case dl_Headers msg of None \<Rightarrow> Map.empty | Some h \<Rightarrow> h);
                     headers = headers0(''x-retries'' \<mapsto> A_int32 (scast (retries + 1)))
                 in fst (publish (pub_answer env) (dl_Body msg) (Some headers)) @ [Ev_Ack False]
               else [Ev_Nack False False]
           | None \<Rightarrow> [Ev_Ack False]))"

text \<open>
  \<open>ConsumeJobs\<close>: what arrives on the two channels of the \<open>select\<close>, in the order it is
  taken; the list ends when the delivery channel is closed.
\<close>

datatype 'f chan_event = Ctx_Done | Msg "'f Delivery"

datatype consume_error = ErrConsume string | ErrCtx | ErrChannelClosed

fun consume_loop ::
  "RabbitMQ \<Rightarrow> 'f consumer_env \<Rightarrow> 'f chan_event list \<Rightarrow> 'f broker_event list \<times> consume_error" where
  "consume_loop r env [] = ([], ErrChannelClosed)"
| "consume_loop r env (Ctx_Done # rest) = ([], ErrCtx)"
| "consume_loop r env (Msg msg # rest) =
     (case consume_loop r env rest of
        (evs, err) \<Rightarrow> (consume_delivery r env msg @ evs, err))"

definition ConsumeJobs ::
  "RabbitMQ \<Rightarrow> 'f consumer_env \<Rightarrow> string option \<Rightarrow> 'f chan_event list
     \<Rightarrow> 'f broker_event list \<times> consume_error" where
  "ConsumeJobs r env consume_err chan =
     (case consume_err of
        Some e \<Rightarrow> ([], ErrConsume e)
      | None \<Rightarrow> consume_loop r env chan)"

section \<open>File-system effects of the two daemons\<close>

text \<open>
  \<open>os.Stat\<close> answers with an error or with the size and the directory flag. What the
  watcher and the worker do to the outside is recorded as a list of events, in order;
  \<open>E_Save\<close> carries the access key of the invoice handed to the persister and
  \<open>E_Observe\<close> the status and source labels of the metric.
\<close>

datatype stat_result = StatNotExist | StatError string | StatInfo int bool

datatype event =
    E_Stat string
  | E_Sleep nat
  | E_Remove string
  | E_RemoveAll string
  | E_MkdirAll string
  | E_Rename string string
  | E_Create string
  | E_PublishJob Job
  | E_ParseFile string
  | E_Save string
  | E_Observe string string

record Config =
  IncomingDir :: string
  ProcessingDir :: string
  ProcessedDir :: string
  FailedDir :: string
  TmpDir :: string
  IgnoredDir :: string

text \<open>\<open>filepath.Ext\<close> and \<open>filepath.Base\<close> with the separator \<open>/\<close>.\<close>

definition filepath_Ext :: "string \<Rightarrow> string" where
  "filepath_Ext path =
     (let elem = rev (takeWhile (\<lambda>c. c \<noteq> CHR ''/'') (rev path)) in
      if CHR ''.'' \<in> set elem
      then CHR ''.'' # rev (takeWhile (\<lambda>c. c \<noteq> CHR ''.'') (rev elem))
      else [])"

definition filepath_Base :: "string \<Rightarrow> string" where
  "filepath_Base path =
     (if path = [] then ''.''
      else
        let p1 = rev (dropWhile (\<lambda>c. c = CHR ''/'') (rev path));
            p2 = rev (takeWhile (\<lambda>c. c \<noteq> CHR ''/'') (rev p1))
        in if p2 = [] then ''/'' else p2)"

section \<open>Watcher (package watcher)\<close>










subsection \<open>Notions used to state the stability check\<close>




section \<open>Worker (package worker)\<close>

text \<open>
  What the worker takes from outside: \<open>os.Stat\<close>, \<open>os.ReadDir\<close> (names with their directory
  flag), \<open>os.MkdirAll\<close>, the archive reader, \<open>os.Create\<close> and \<open>io.Copy\<close> (whether they
  succeed), the parser and the persister. The results of \<open>os.Rename\<close>, \<open>os.Remove\<close> and
  \<open>os.RemoveAll\<close> are only logged.
\<close>

record zip_entry =
  ze_Name :: string
  ze_IsDir :: bool
  ze_Open_ok :: bool

record 'f worker_env =
  we_Stat :: "string \<Rightarrow> stat_result"
  we_ReadDir :: "string \<Rightarrow> (string \<times> bool) list option"
  we_MkdirAll_ok :: "string \<Rightarrow> bool"
  we_OpenReader :: "string \<Rightarrow> zip_entry list option"
  we_Create_ok :: "string \<Rightarrow> bool"
  we_Copy_ok :: "string \<Rightarrow> bool"
  we_ParseFile :: "string \<Rightarrow> parse_error + 'f ParsedNFe"
  we_Save :: "'f store \<Rightarrow> 'f ParsedNFe \<Rightarrow> 'f tx option \<times> (save_error + int)"

text \<open>The worker's state: the store and the events so far.\<close>

type_synonym 'f wstate = "'f store \<times> event list"

definition log_events :: "event list \<Rightarrow> 'f wstate \<Rightarrow> 'f wstate" where
  "log_events evs s = (fst s, snd s @ evs)"

definition moveToProcessed :: "'f golib \<Rightarrow> Config \<Rightarrow> string \<Rightarrow> string \<Rightarrow> 'f wstate \<Rightarrow> 'f wstate" where
  "moveToProcessed lib cfg srcPath filename s =
     log_events [E_Rename srcPath (filepath_Join lib (ProcessedDir cfg) filename)] s"

definition moveToFailed :: "'f golib \<Rightarrow> Config \<Rightarrow> string \<Rightarrow> string \<Rightarrow> 'f wstate \<Rightarrow> 'f wstate" where
  "moveToFailed lib cfg srcPath filename s =
     log_events [E_Rename srcPath (filepath_Join lib (FailedDir cfg) filename)] s"

definition moveToIgnored :: "'f golib \<Rightarrow> Config \<Rightarrow> string \<Rightarrow> string \<Rightarrow> 'f wstate \<Rightarrow> 'f wstate" where
  "moveToIgnored lib cfg srcPath filename s =
     log_events [E_Rename srcPath (filepath_Join lib (IgnoredDir cfg) filename)] s"

text \<open>
  Parse, save and move one XML file, then observe the metric with the status reached and
  the given source label: the body shared by \<open>processXML\<close> (source \<open>xml\<close>, metric in the
  deferred call) and by the loop of \<open>processZIP\<close> (source \<open>zip\<close>). The third component is
  the status.
\<close>

definition process_one ::
  "'f golib \<Rightarrow> 'f worker_env \<Rightarrow> Config \<Rightarrow> string \<Rightarrow> string \<Rightarrow> string \<Rightarrow> 'f wstate
     \<Rightarrow> 'f wstate \<times> string" where
  "process_one lib env cfg source srcPath filename s0 =
     (let s1 = log_events [E_ParseFile srcPath] s0 in
      case we_ParseFile env srcPath of
        Inl err \<Rightarrow>
          (log_events [E_Observe ''parse_error'' source] (moveToFailed lib cfg srcPath filename s1),
           ''parse_error'')
      | Inr parsed \<Rightarrow>
          (case we_Save env (fst s1) parsed of
             (t, r) \<Rightarrow>
               let s2 = (store_after (fst s1) t, snd s1 @ [E_Save (ChaveAcesso parsed)]) in
               (case r of
                  Inl err \<Rightarrow>
                    if err = ErrNFeAlreadyExists then
                      (log_events [E_Observe ''duplicate'' source]
                         (moveToIgnored lib cfg srcPath filename s2), ''duplicate'')
                    else
                      (log_events [E_Observe ''db_error'' source]
                         (moveToFailed lib cfg srcPath filename s2), ''db_error'')
                | Inr nfeID \<Rightarrow>
                    (log_events [E_Observe ''success'' source]
                       (moveToProcessed lib cfg srcPath filename s2), ''success''))))"

definition processXML ::
  "'f golib \<Rightarrow> 'f worker_env \<Rightarrow> Config \<Rightarrow> string \<Rightarrow> string \<Rightarrow> 'f wstate \<Rightarrow> 'f wstate" where
  "processXML lib env cfg srcPath filename s = fst (process_one lib env cfg ''xml'' srcPath filename s)"

text \<open>The loop of \<open>processZIP\<close> over the entries of the archive.\<close>

fun processZIP_entries ::
  "'f golib \<Rightarrow> 'f worker_env \<Rightarrow> Config \<Rightarrow> string \<Rightarrow> zip_entry list \<Rightarrow> 'f wstate \<Rightarrow> 'f wstate" where
  "processZIP_entries lib env cfg workDir [] s = s"
| "processZIP_entries lib env cfg workDir (f # fs) s =
     (if ze_IsDir f then processZIP_entries lib env cfg workDir fs s
      else if \<not> HasSuffix (strings_ToLower lib (ze_Name f)) ''.xml''
        then processZIP_entries lib env cfg workDir fs s
      else if \<not> ze_Open_ok f then processZIP_entries lib env cfg workDir fs s
      else
        let innerFileName = filepath_Base (ze_Name f);
            innerPath = filepath_Join lib workDir innerFileName;
            s1 = log_events [E_Create innerPath] s
        in if \<not> we_Create_ok env innerPath then processZIP_entries lib env cfg workDir fs s1
           else if \<not> we_Copy_ok env innerPath then processZIP_entries lib env cfg workDir fs s1
           else processZIP_entries lib env cfg workDir fs
                  (fst (process_one lib env cfg ''zip'' innerPath innerFileName s1)))"

definition processZIP ::
  "'f golib \<Rightarrow> 'f worker_env \<Rightarrow> Config \<Rightarrow> string \<Rightarrow> string \<Rightarrow> 'f wstate \<Rightarrow> 'f wstate" where
  "processZIP lib env cfg srcPath filename s =
     (let ext = filepath_Ext filename;
          baseName = (if HasSuffix filename ext then take (length filename - length ext) filename
                      else filename);
          workDir = filepath_Join lib (TmpDir cfg) baseName;
          s1 = log_events [E_MkdirAll workDir] s
      in if \<not> we_MkdirAll_ok env workDir then log_events [E_Remove srcPath] s1
         else
           (case we_OpenReader env srcPath of
              None \<Rightarrow> log_events [E_Remove srcPath, E_RemoveAll workDir] s1
            | Some files \<Rightarrow>
                if files = [] then log_events [E_Remove srcPath, E_RemoveAll workDir] s1
                else log_events [E_Remove srcPath, E_RemoveAll workDir]
                       (processZIP_entries lib env cfg workDir files s1)))"

definition handleProcessingFile ::
  "'f golib \<Rightarrow> 'f worker_env \<Rightarrow> Config \<Rightarrow> string \<Rightarrow> 'f wstate \<Rightarrow> 'f wstate" where
  "handleProcessingFile lib env cfg srcPath s0 =
     (let s = log_events [E_Stat srcPath] s0 in
      case we_Stat env srcPath of
        StatNotExist \<Rightarrow> s
      | StatError err \<Rightarrow> s
      | StatInfo sz isDir \<Rightarrow>
          if isDir then s
          else
            let filename = filepath_Base srcPath;
                ext = strings_ToLower lib (filepath_Ext filename)
            in if ext = ''.xml'' then processXML lib env cfg srcPath filename s
               else if ext = ''.zip'' then processZIP lib env cfg srcPath filename s
               else moveToProcessed lib cfg srcPath filename s)"

text \<open>One tick of the polling mode: every entry of \<open>processing/\<close> that is not a directory.\<close>

fun processEntries ::
  "'f golib \<Rightarrow> 'f worker_env \<Rightarrow> Config \<Rightarrow> (string \<times> bool) list \<Rightarrow> 'f wstate \<Rightarrow> 'f wstate" where
  "processEntries lib env cfg [] s = s"
| "processEntries lib env cfg ((name, isDir) # entries) s =
     (if isDir then processEntries lib env cfg entries s
      else processEntries lib env cfg entries
             (handleProcessingFile lib env cfg (filepath_Join lib (ProcessingDir cfg) name) s))"

definition processProcessingFolder :: "'f golib \<Rightarrow> 'f worker_env \<Rightarrow> Config \<Rightarrow> 'f wstate \<Rightarrow> 'f wstate" where
  "processProcessingFolder lib env cfg s =
     (case we_ReadDir env (ProcessingDir cfg) of
        None \<Rightarrow> s
      | Some entries \<Rightarrow> processEntries lib env cfg entries s)"

text \<open>The queue mode: \<open>handleJob\<close> always returns \<open>nil\<close>.\<close>

definition handleJob ::
  "'f golib \<Rightarrow> 'f worker_env \<Rightarrow> Config \<Rightarrow> Job \<Rightarrow> 'f wstate \<Rightarrow> 'f wstate \<times> string option" where
  "handleJob lib env cfg job s0 =
     (let s = log_events [E_Stat (job_Path job)] s0 in
      case we_Stat env (job_Path job) of
        StatNotExist \<Rightarrow> (s, None)
      | StatError err \<Rightarrow> (s, None)
      | StatInfo sz isDir \<Rightarrow>
          if isDir then (s, None)
          else
            let kind = strings_ToLower lib (job_Kind job) in
            if kind = ''xml'' then (processXML lib env cfg (job_Path job) (job_Filename job) s, None)
            else if kind = ''zip''
              then (processZIP lib env cfg (job_Path job) (job_Filename job) s, None)
            else (s, None))"

section \<open>Fixtures\<close>

text \<open>Concrete inputs at which the theorems below are instantiated.\<close>

subsection \<open>A parsed invoice and database answers\<close>

definition fixture_item :: "rat ParsedItem" where
  "fixture_item =
     \<lparr>it_NItem = 1, it_Codigo = ''P1'', it_CodigoEAN = [], it_Descricao = ''Produto'',
      it_NCM = ''12345678'', it_CFOP = ''5102'', it_Unidade = ''UN'', it_Quantidade = 1,
      it_ValorUnitario = 100, it_ValorTotalBruto = 100, it_ValorFrete = 0,
      it_ValorSeguro = 0, it_ValorDesconto = 0, it_ValorOutros = 0, it_IndTotal = 1,
      it_BaseCalculoICMS = 100, it_ValorICMS = 18, it_BaseCalculoICMSST = 0,
      it_ValorICMSST = 0, it_ValorIPI = 0, it_ValorPIS = 0, it_ValorCOFINS = 0\<rparr>"

definition fixture_parsed :: "rat ParsedNFe" where
  "fixture_parsed =
     \<lparr>ChaveAcesso = ''35240114200166000187550010000000011000000017'',
      HashIntegridade = ''00'', Modelo = 55, Serie = 1, Numero = 1,
      EmissaoDate = ''2024-01-15'', TipoOperacao = 1, TipoAmbiente = 1,
      NaturezaOperacao = ''VENDA'', ProtocoloAut = [], DataAutorizacao = [],
      CodigoStatus = 0, EmitenteCNPJ = ''14200166000187'', EmitenteRazao = ''EMPRESA'',
      DestCNPJCPF = [], DestRazao = [], ValorTotalNota = 100, ValorProdutos = 100,
      ValorDesconto = 0, ValorICMS = 18, ValorIPI = 0, ValorPIS = 0, ValorCOFINS = 0,
      ValorII = 0, ValorFrete = 0, ValorSeguro = 0, ModalidadeFrete = 0,
      XMLRaw = ''<NFe/>'', Itens = [fixture_item], Duplicatas = [], Pagamentos = []\<rparr>"

definition fixture_env_duplicate :: db_env where
  "fixture_env_duplicate =
     \<lparr>begin_err = None,
      stmt_err = (\<lambda>k. if k = 0 then Some (PgError ''23505'') else None),
      returned_id = 7, commit_err = None\<rparr>"

definition fixture_env_item_fails :: db_env where
  "fixture_env_item_fails =
     \<lparr>begin_err = None,
      stmt_err = (\<lambda>k. if k = 2 then Some (PgError ''23505'') else None),
      returned_id = 7, commit_err = None\<rparr>"

subsection \<open>A library instance for the fixtures\<close>

text \<open>
  \<open>fixture_lib\<close> answers as the Go library does on the arguments the fixtures reach:
  \<open>dec_ParseFloat\<close> and \<open>dec_Atoi\<close> read plain signed decimal literals (the values used
  are exactly representable as \<open>float64\<close>) and report an error on any other text they are
  given here, \<open>ascii_lower\<close> lowers ASCII letters, and the two unmarshal functions are
  tables over the fixture documents. The fixtures never reach \<open>time.Parse\<close>; the digest is
  not computed and stands as a fixed 64-character string.
\<close>

fun digits_value :: "nat \<Rightarrow> string \<Rightarrow> nat" where
  "digits_value acc [] = acc"
| "digits_value acc (c # cs) = digits_value (10 * acc + (of_char c - 48)) cs"

definition split_sign :: "string \<Rightarrow> bool \<times> string" where
  "split_sign s =
     (case s of
        [] \<Rightarrow> (False, [])
      | c # r \<Rightarrow> if c = CHR ''-'' then (True, r) else if c = CHR ''+'' then (False, r) else (False, s))"

definition dec_ParseFloat :: "string \<Rightarrow> rat option" where
  "dec_ParseFloat s =
     (case split_sign s of (neg, body) \<Rightarrow>
        let ip = takeWhile isDigit body;
            rest = dropWhile isDigit body;
            fp = (case rest of [] \<Rightarrow> [] | c # r \<Rightarrow> r)
        in if (rest = [] \<or> hd rest = CHR ''.'') \<and> list_all isDigit fp \<and> ip @ fp \<noteq> []
           then Some ((if neg then - 1 else 1) *
                      (of_nat (digits_value 0 (ip @ fp)) / of_nat (10 ^ length fp)))
           else None)"

definition dec_Atoi :: "string \<Rightarrow> int option" where
  "dec_Atoi s =
     (case split_sign s of (neg, body) \<Rightarrow>
        if body \<noteq> [] \<and> list_all isDigit body then
          let v = (if neg then - int (digits_value 0 body) else int (digits_value 0 body))
          in if - (2 ^ 63) \<le> v \<and> v < 2 ^ 63 then Some v else None
        else None)"

definition ascii_lower :: "string \<Rightarrow> string" where
  "ascii_lower s =
     map (\<lambda>c. if (65::nat) \<le> of_char c \<and> of_char c \<le> (90::nat)
              then char_of (of_char c + (32::nat)) else c) s"

subsection \<open>Fixture documents and what \<open>encoding/xml\<close> decodes them to\<close>

definition zero_ide :: ide where
  "zero_ide =
     \<lparr>ide_Modelo = 0, ide_Serie = 0, ide_NNF = 0, ide_DhEmi = [], ide_DEmi = [],
      ide_TpNF = 0, ide_TpAmb = 0, ide_NatOp = []\<rparr>"

definition zero_icmsTot :: icmsTot where
  "zero_icmsTot =
     \<lparr>tot_VNF = [], tot_VProd = [], tot_VDesc = [], tot_VICMS = [], tot_VIPI = [],
      tot_VPIS = [], tot_VCOFINS = [], tot_VII = [], tot_VFrete = [], tot_VSeg = []\<rparr>"

definition zero_infNFe :: infNFe where
  "zero_infNFe =
     \<lparr>inf_ID = [], inf_Versao = [], inf_Ide = zero_ide,
      inf_Emit = \<lparr>emit_CNPJ = [], emit_XNome = []\<rparr>, inf_Dest = None, inf_Det = [],
      inf_Total = \<lparr>total_ICMSTot = zero_icmsTot\<rparr>, inf_Transp = None, inf_Cobr = None,
      inf_Pag = None\<rparr>"

definition zero_icmsGroup :: icmsGroup where
  "zero_icmsGroup =
     \<lparr>ICMS00 = None, ICMS10 = None, ICMS20 = None, ICMS30 = None, ICMS40 = None,
      ICMS51 = None, ICMS60 = None, ICMS70 = None, ICMS90 = None, ICMSPart = None,
      ICMSSN101 = None, ICMSSN102 = None, ICMSSN201 = None, ICMSSN202 = None,
      ICMSSN500 = None, ICMSSN900 = None\<rparr>"

text \<open>A bare \<open>NFe\<close> with model 55 and no issue date.\<close>

definition doc_no_date :: string where
  "doc_no_date = ''<NFe><infNFe><ide><mod>55</mod><serie>1</serie><nNF>7</nNF></ide></infNFe></NFe>''"

definition nfe_no_date :: nfe where
  "nfe_no_date =
     \<lparr>nfe_InfNFe = zero_infNFe\<lparr>inf_Ide := zero_ide\<lparr>ide_Modelo := 55, ide_Serie := 1, ide_NNF := 7\<rparr>\<rparr>\<rparr>"

text \<open>A protocol envelope whose \<open>chNFe\<close> has three digits.\<close>

definition doc_short_key :: string where
  "doc_short_key = ''<nfeProc><NFe><infNFe><ide><mod>55</mod><dhEmi>2024-01-15</dhEmi></ide></infNFe></NFe><protNFe><infProt><chNFe>123</chNFe></infProt></protNFe></nfeProc>''"

definition proc_short_key :: nfeProc where
  "proc_short_key =
     \<lparr>proc_NFe =
        \<lparr>nfe_InfNFe = zero_infNFe\<lparr>inf_Ide := zero_ide\<lparr>ide_Modelo := 55, ide_DhEmi := ''2024-01-15''\<rparr>\<rparr>\<rparr>,
      proc_ProtNFe =
        Some \<lparr>prot_InfProt = \<lparr>infProt_ChNFe = ''123'', infProt_DhRecb = [],
                               infProt_NProt = [], infProt_CStat = []\<rparr>\<rparr>\<rparr>"

text \<open>A bare \<open>NFe\<close> whose invoice total is negative.\<close>

definition doc_negative :: string where
  "doc_negative = ''<NFe><infNFe><ide><mod>55</mod><dhEmi>2024-01-15</dhEmi></ide><total><ICMSTot><vNF>-5.00</vNF></ICMSTot></total></infNFe></NFe>''"

definition nfe_negative :: nfe where
  "nfe_negative =
     \<lparr>nfe_InfNFe = zero_infNFe
        \<lparr>inf_Ide := zero_ide\<lparr>ide_Modelo := 55, ide_DhEmi := ''2024-01-15''\<rparr>,
         inf_Total := \<lparr>total_ICMSTot = zero_icmsTot\<lparr>tot_VNF := ''-5.00''\<rparr>\<rparr>\<rparr>\<rparr>"

text \<open>A bare \<open>NFe\<close> with model 0: both attempts are refused.\<close>

definition doc_mod_zero :: string where
  "doc_mod_zero = ''<NFe><infNFe><ide><mod>0</mod><dhEmi>2024-01-15</dhEmi></ide></infNFe></NFe>''"

definition nfe_mod_zero :: nfe where
  "nfe_mod_zero =
     \<lparr>nfe_InfNFe = zero_infNFe\<lparr>inf_Ide := zero_ide\<lparr>ide_DhEmi := ''2024-01-15''\<rparr>\<rparr>\<rparr>"

text \<open>An \<open>imposto/ICMS\<close> group that holds both an ICMS30 and an ICMS70 element.\<close>

definition fixture_icms_30_70 :: icmsGroup where
  "fixture_icms_30_70 =
     zero_icmsGroup
       \<lparr>ICMS30 := Some \<lparr>isv_VBC = ''100.00'', isv_VICMS = ''18.00'',
                        isv_VBCST = ''50.00'', isv_VICMSST = ''9.00''\<rparr>,
        ICMS70 := Some \<lparr>isv_VBC = ''200.00'', isv_VICMS = ''36.00'',
                        isv_VBCST = ''60.00'', isv_VICMSST = ''12.00''\<rparr>\<rparr>"

text \<open>A group with the single element ICMS00.\<close>

definition fixture_icms_00 :: icmsGroup where
  "fixture_icms_00 =
     zero_icmsGroup\<lparr>ICMS00 := Some \<lparr>iv_VBC = ''100,00'', iv_VICMS = ''18.00''\<rparr>\<rparr>"

text \<open>
  A bare \<open>NFe\<close> with two items, a receivable and a payment. The first item has the single
  ICMS element ICMS00, the second has both ICMS30 and ICMS70. Amounts are written with a
  comma, with a dot, with a minus sign and, for \<open>vOutro\<close> of the first item, as a word.
\<close>

definition doc_items :: string where
  "doc_items = ''<NFe><infNFe><ide><mod>55</mod><dhEmi>2024-01-15</dhEmi></ide><det><prod><vUnCom>50.00</vUnCom><vProd>100,00</vProd><vDesc>-5.00</vDesc><vOutro>cem</vOutro></prod><imposto><ICMS><ICMS00><vBC>100,00</vBC><vICMS>18.00</vICMS></ICMS00></ICMS><IPI><IPITrib><vIPI>9.00</vIPI></IPITrib></IPI><PIS><PISAliq><vPIS>12.00</vPIS></PISAliq></PIS><COFINS><COFINSOutr><vCOFINS>36.00</vCOFINS></COFINSOutr></COFINS></imposto></det><det><prod><vUnCom>60.00</vUnCom><vProd>60.00</vProd></prod><imposto><ICMS><ICMS30><vBC>100.00</vBC><vICMS>18.00</vICMS><vBCST>50.00</vBCST><vICMSST>9.00</vICMSST></ICMS30><ICMS70><vBC>200.00</vBC><vICMS>36.00</vICMS><vBCST>60.00</vBCST><vICMSST>12.00</vICMSST></ICMS70></ICMS></imposto></det><total><ICMSTot><vNF>200.00</vNF><vProd>100,00</vProd><vDesc>-5.00</vDesc></ICMSTot></total><cobr><dup><nDup>001</nDup><dVenc>2024-02-15</dVenc><vDup>100,00</vDup></dup></cobr><pag><detPag><tPag>01</tPag><vPag>200.00</vPag></detPag></pag></infNFe></NFe>''"

definition zero_prod :: prodNFe where
  "zero_prod =
     \<lparr>prod_CProd = [], prod_CEAN = [], prod_XProd = [], prod_NCM = [], prod_CFOP = [],
      prod_UCom = [], prod_QCom = [], prod_VUnCom = [], prod_VProd = [], prod_VFrete = [],
      prod_VSeg = [], prod_VDesc = [], prod_VOutro = [], prod_IndTot = []\<rparr>"

definition det_one :: det where
  "det_one =
     \<lparr>det_NItem = [],
      det_Prod = zero_prod\<lparr>prod_VUnCom := ''50.00'', prod_VProd := ''100,00'',
                             prod_VDesc := ''-5.00'', prod_VOutro := ''cem''\<rparr>,
      det_Imposto =
        \<lparr>imp_ICMS = fixture_icms_00,
         imp_IPI = Some \<lparr>ipi_Trib = Some \<lparr>ipiTrib_VIPI = ''9.00''\<rparr>, ipi_NT = None\<rparr>,
         imp_PIS = Some \<lparr>pis_Aliq = Some \<lparr>pisVal_VPIS = ''12.00''\<rparr>, pis_Qtde = None,
                          pis_NT = None, pis_Outr = None\<rparr>,
         imp_COFINS = Some \<lparr>cofins_Aliq = None, cofins_Qtde = None, cofins_NT = None,
                             cofins_Outr = Some \<lparr>cofinsVal_VCOFINS = ''36.00''\<rparr>\<rparr>\<rparr>\<rparr>"

definition det_two :: det where
  "det_two =
     \<lparr>det_NItem = [],
      det_Prod = zero_prod\<lparr>prod_VUnCom := ''60.00'', prod_VProd := ''60.00''\<rparr>,
      det_Imposto =
        \<lparr>imp_ICMS = fixture_icms_30_70, imp_IPI = None, imp_PIS = None, imp_COFINS = None\<rparr>\<rparr>"

definition nfe_items :: nfe where
  "nfe_items =
     \<lparr>nfe_InfNFe = zero_infNFe
        \<lparr>inf_Ide := zero_ide\<lparr>ide_Modelo := 55, ide_DhEmi := ''2024-01-15''\<rparr>,
         inf_Det := [det_one, det_two],
         inf_Total :=
           \<lparr>total_ICMSTot = zero_icmsTot\<lparr>tot_VNF := ''200.00'', tot_VProd := ''100,00'',
                                            tot_VDesc := ''-5.00''\<rparr>\<rparr>,
         inf_Cobr :=
           Some \<lparr>cobr_Duplicatas =
                   [\<lparr>dup_Numero = ''001'', dup_DVenc = ''2024-02-15'', dup_Valor = ''100,00''\<rparr>]\<rparr>,
         inf_Pag :=
           Some \<lparr>pag_Det =
                   [\<lparr>detPag_IndPag = [], detPag_Meio = ''01'', detPag_Valor = ''200.00'',
                     detPag_Card = None\<rparr>]\<rparr>\<rparr>\<rparr>"

definition fixture_lib :: "rat golib" where
  "fixture_lib =
     \<lparr>strconv_ParseFloat = dec_ParseFloat,
      strconv_Atoi = dec_Atoi,
      time_Parse_Format = (\<lambda>layout d. None),
      xml_Unmarshal_nfeProc =
        (\<lambda>data. if data = doc_short_key then Some proc_short_key else None),
      xml_Unmarshal_nfe =
        (\<lambda>data. if data = doc_no_date then Some nfe_no_date
                 else if data = doc_negative then Some nfe_negative
                 else if data = doc_mod_zero then Some nfe_mod_zero
                 else if data = doc_items then Some nfe_items
                 else None),
      sha256_hex = (\<lambda>data. replicate 64 (CHR ''0'')),
      strings_ToLower = ascii_lower,
      filepath_IsAbs = (\<lambda>p. HasPrefix p ''/''),
      filepath_Join = (\<lambda>d f. d @ ''/'' @ f)\<rparr>"

text \<open>A world with the fixture documents in \<open>processing/\<close> and no XSD validation.\<close>

definition fixture_world :: world where
  "fixture_world =
     \<lparr>os_ReadFile =
        (\<lambda>path. if path = ''/data/processing/no_date.xml'' then Inr doc_no_date
                 else if path = ''/data/processing/short_key.xml'' then Inr doc_short_key
                 else if path = ''/data/processing/negative.xml'' then Inr doc_negative
                 else if path = ''/data/processing/mod_zero.xml'' then Inr doc_mod_zero
                 else if path = ''/data/processing/items.xml'' then Inr doc_items
                 else Inl ''no such file or directory''),
      os_Getenv = (\<lambda>name. []),
      os_Stat = (\<lambda>path. Some ''no such file or directory''),
      xsd_Init = None,
      xsd_NewXsdHandlerUrl = (\<lambda>path. None),
      xsd_ValidateMem = (\<lambda>path data. None)\<rparr>"

text \<open>
  The same documents at the same paths, in a world that differs in everything the parser
  does not read: another file is present and another environment variable is set.
\<close>

definition fixture_world_other :: world where
  "fixture_world_other =
     fixture_world
       \<lparr>os_ReadFile :=
          (\<lambda>path. if path = ''/data/processing/extra.xml'' then Inr ''<x/>''
                   else os_ReadFile fixture_world path),
        os_Getenv := (\<lambda>name. if name = ''HOME'' then ''/root'' else [])\<rparr>"

subsection \<open>Directories, deliveries and file samples\<close>

definition fixture_cfg :: Config where
  "fixture_cfg =
     \<lparr>IncomingDir = ''/data/incoming'', ProcessingDir = ''/data/processing'',
      ProcessedDir = ''/data/processed'', FailedDir = ''/data/failed'', TmpDir = ''/data/tmp'',
      IgnoredDir = ''/data/ignored''\<rparr>"

definition fixture_rmq :: RabbitMQ where
  "fixture_rmq = \<lparr>rmq_queueName = ''nfe-drop-jobs'', rmq_maxRetries = 3, rmq_prefetch = 10\<rparr>"



definition fixture_job :: Job where
  "fixture_job =
     \<lparr>job_Path = ''/data/processing/nota.xml'', job_Filename = ''nota.xml'', job_Kind = ''xml''\<rparr>"

definition fixture_body :: string where
  "fixture_body = ''{path:/data/processing/nota.xml,filename:nota.xml,kind:xml}''"

text \<open>Go's \<open>int(t)\<close> on a float: the fraction is discarded.\<close>

definition truncate_to_int :: "rat \<Rightarrow> 64 word" where
  "truncate_to_int q = word_of_int (if 0 \<le> q then \<lfloor>q\<rfloor> else - \<lfloor>- q\<rfloor>)"

text \<open>A consumer whose handler always fails and whose broker confirms every message.\<close>

definition fixture_consumer :: "rat consumer_env" where
  "fixture_consumer =
     \<lparr>json_Unmarshal_Job = (\<lambda>body. if body = fixture_body then Some fixture_job else None),
      handler = (\<lambda>job. Some ''connection refused''),
      float_to_int = truncate_to_int,
      pub_answer = (\<lambda>msg. Pub_Confirmed)\<rparr>"

definition delivery_with :: "rat amqp_value \<Rightarrow> rat Delivery" where
  "delivery_with v = \<lparr>dl_Body = fixture_body, dl_Headers = Some [''x-retries'' \<mapsto> v]\<rparr>"


text \<open>A worker environment in which \<open>processing/\<close> holds the regular file \<open>notes.txt\<close>.\<close>

definition fixture_worker_env :: "rat worker_env" where
  "fixture_worker_env =
     \<lparr>we_Stat = (\<lambda>path. if path = ''/data/processing/notes.txt'' then StatInfo 12 False
                        else StatNotExist),
      we_ReadDir = (\<lambda>dir. if dir = ''/data/processing'' then Some [(''notes.txt'', False)]
                          else None),
      we_MkdirAll_ok = (\<lambda>dir. True),
      we_OpenReader = (\<lambda>path. None),
      we_Create_ok = (\<lambda>path. True),
      we_Copy_ok = (\<lambda>path. True),
      we_ParseFile = ParseFile fixture_lib fixture_world,
      we_Save = SaveNFeWithRelations fixture_env_duplicate\<rparr>"

section \<open>The persister is a single transaction\<close>

lemma tx_Exec_facts:
  "tx_Exec env t tbl row = (t', r) \<Longrightarrow>
     tx_base t' = tx_base t \<and> tx_status t' = tx_status t \<and> tx_count t' = Suc (tx_count t) \<and>
     r = stmt_err env (tx_count t)"
  by (auto simp: tx_Exec_def split: option.splits)

lemma insertItens_facts:
  "insertItens env t nfeID itens = (t', r) \<Longrightarrow>
     tx_base t' = tx_base t \<and> tx_status t' = tx_status t \<and>
     (r = None \<longleftrightarrow> (\<forall>k < length itens. stmt_err env (tx_count t + k) = None)) \<and>
     (r = None \<longrightarrow> tx_count t' = tx_count t + length itens)"
proof (induction itens arbitrary: t)
  case Nil
  then show ?case by simp
next
  case (Cons it itens)
  obtain t1 r1 where e: "tx_Exec env t T_nfe_item (item_row nfeID it) = (t1, r1)"
    by (cases "tx_Exec env t T_nfe_item (item_row nfeID it)")
  note f = tx_Exec_facts [OF e]
  show ?case
  proof (cases "stmt_err env (tx_count t)")
    case None
    with Cons.prems e f have "insertItens env t1 nfeID itens = (t', r)" by simp
    from Cons.IH [OF this] f None show ?thesis
      by (auto simp: less_Suc_eq_0_disj)
  next
    case (Some err)
    with Cons.prems e f have "t' = t1" "r = Some (ErrInsertItem (it_NItem it) nfeID err)" by auto
    with f Some show ?thesis by auto
  qed
qed

lemma insertDuplicatas_facts:
  "insertDuplicatas env t nfeID dups = (t', r) \<Longrightarrow>
     tx_base t' = tx_base t \<and> tx_status t' = tx_status t \<and>
     (r = None \<longleftrightarrow> (\<forall>k < length dups. stmt_err env (tx_count t + k) = None)) \<and>
     (r = None \<longrightarrow> tx_count t' = tx_count t + length dups)"
proof (induction dups arbitrary: t)
  case Nil
  then show ?case by simp
next
  case (Cons d dups)
  obtain t1 r1 where e: "tx_Exec env t T_nfe_duplicatas (duplicata_row nfeID d) = (t1, r1)"
    by (cases "tx_Exec env t T_nfe_duplicatas (duplicata_row nfeID d)")
  note f = tx_Exec_facts [OF e]
  show ?case
  proof (cases "stmt_err env (tx_count t)")
    case None
    with Cons.prems e f have "insertDuplicatas env t1 nfeID dups = (t', r)" by simp
    from Cons.IH [OF this] f None show ?thesis
      by (auto simp: less_Suc_eq_0_disj)
  next
    case (Some err)
    with Cons.prems e f have "t' = t1" "r = Some (ErrInsertDuplicata nfeID (du_Numero d) err)" by auto
    with f Some show ?thesis by auto
  qed
qed

lemma insertPagamentos_facts:
  "insertPagamentos env t nfeID pags = (t', r) \<Longrightarrow>
     tx_base t' = tx_base t \<and> tx_status t' = tx_status t \<and>
     (r = None \<longleftrightarrow> (\<forall>k < length pags. stmt_err env (tx_count t + k) = None)) \<and>
     (r = None \<longrightarrow> tx_count t' = tx_count t + length pags)"
proof (induction pags arbitrary: t)
  case Nil
  then show ?case by simp
next
  case (Cons pg pags)
  obtain t1 r1 where e: "tx_Exec env t T_nfe_pagamentos (pagamento_row nfeID pg) = (t1, r1)"
    by (cases "tx_Exec env t T_nfe_pagamentos (pagamento_row nfeID pg)")
  note f = tx_Exec_facts [OF e]
  show ?case
  proof (cases "stmt_err env (tx_count t)")
    case None
    with Cons.prems e f have "insertPagamentos env t1 nfeID pags = (t', r)" by simp
    from Cons.IH [OF this] f None show ?thesis
      by (auto simp: less_Suc_eq_0_disj)
  next
    case (Some err)
    with Cons.prems e f have "t' = t1" "r = Some (ErrInsertPagamento nfeID (pg_MeioPagamento pg) err)" by auto
    with f Some show ?thesis by auto
  qed
qed

lemma insertNFe_facts:
  "insertNFe env t p = (t', r) \<Longrightarrow>
     tx_base t' = tx_base t \<and> tx_status t' = tx_status t \<and>
     ((\<exists>nfeID. r = Inr nfeID) \<longleftrightarrow> TrimSpace (EmissaoDate p) \<noteq> [] \<and> stmt_err env (tx_count t) = None) \<and>
     (r = Inl ErrNFeAlreadyExists \<longleftrightarrow>
        TrimSpace (EmissaoDate p) \<noteq> [] \<and> (\<exists>e. stmt_err env (tx_count t) = Some e \<and> isUniqueViolation e)) \<and>
     ((\<exists>nfeID. r = Inr nfeID) \<longrightarrow> tx_count t' = Suc (tx_count t))"
  by (auto simp: insertNFe_def tx_QueryRow_def tx_Exec_def Let_def split: if_splits option.splits)

lemma insertNFeXML_facts:
  "insertNFeXML env t nfeID p = (t', r) \<Longrightarrow>
     tx_base t' = tx_base t \<and> tx_status t' = tx_status t \<and>
     (r = None \<longleftrightarrow> stmt_err env (tx_count t) = None) \<and> tx_count t' = Suc (tx_count t)"
  by (auto simp: insertNFeXML_def tx_Exec_def split: option.splits)

lemma tx_Commit_facts:
  "tx_Commit env t = (t', r) \<Longrightarrow>
     tx_base t' = tx_base t \<and> r = commit_err env \<and>
     tx_status t' = (if r = None then TxCommitted else TxRolledBack)"
  by (auto simp: tx_Commit_def split: option.splits)


lemma all_less_add:
  "(\<forall>k < m + n. P k) \<longleftrightarrow> (\<forall>k < m. P k) \<and> (\<forall>k < n. P (m + (k::nat)))"
proof
  assume a: "\<forall>k < m + n. P k"
  have "P k" if "k < m" for k
  proof -
    from that have "k < m + n" by simp
    with a show ?thesis by blast
  qed
  moreover have "P (m + k)" if "k < n" for k
  proof -
    from that have "m + k < m + n" by simp
    with a show ?thesis by blast
  qed
  ultimately show "(\<forall>k < m. P k) \<and> (\<forall>k < n. P (m + k))" by blast
next
  assume b: "(\<forall>k < m. P k) \<and> (\<forall>k < n. P (m + k))"
  show "\<forall>k < m + n. P k"
  proof (intro allI impI)
    fix k :: nat assume k: "k < m + n"
    show "P k"
    proof (cases "k < m")
      case True
      with b show ?thesis by simp
    next
      case False
      then have "k - m < n" "k = m + (k - m)" using k by simp_all
      with b show ?thesis by metis
    qed
  qed
qed

lemma stmts_split:
  "(\<forall>k < 2 + ni + nd + np. P k) \<longleftrightarrow>
     P 0 \<and> P (Suc 0) \<and> (\<forall>k < ni. P (2 + k)) \<and> (\<forall>k < nd. P (2 + ni + k)) \<and>
     (\<forall>k < np. P (2 + ni + nd + k))"
proof -
  have two: "(\<forall>k < (2::nat). P k) \<longleftrightarrow> P 0 \<and> P (Suc 0)"
    by (auto simp: less_Suc_eq numeral_2_eq_2)
  show ?thesis
    by (simp only: all_less_add [of "2 + ni + nd" np] all_less_add [of "2 + ni" nd]
        all_less_add [of 2 ni] two conj_assoc)
qed

lemma insertNFeXML_not_dup: "insertNFeXML env t nfeID p = (t', Some e) \<Longrightarrow> e \<noteq> ErrNFeAlreadyExists"
  by (auto simp: insertNFeXML_def split: prod.splits option.splits)

lemma insertItens_not_dup: "insertItens env t nfeID xs = (t', Some e) \<Longrightarrow> e \<noteq> ErrNFeAlreadyExists"
  by (induction xs arbitrary: t) (auto split: prod.splits option.splits)

lemma insertDuplicatas_not_dup: "insertDuplicatas env t nfeID xs = (t', Some e) \<Longrightarrow> e \<noteq> ErrNFeAlreadyExists"
  by (induction xs arbitrary: t) (auto split: prod.splits option.splits)

lemma insertPagamentos_not_dup: "insertPagamentos env t nfeID xs = (t', Some e) \<Longrightarrow> e \<noteq> ErrNFeAlreadyExists"
  by (induction xs arbitrary: t) (auto split: prod.splits option.splits)

lemma save_body_facts:
  assumes sb: "save_body env t0 p = (t, r)"
    and c0: "tx_count t0 = 0"
  shows "tx_base t = tx_base t0 \<and>
     ((\<exists>nfeID. r = Inr nfeID) \<longleftrightarrow>
        TrimSpace (EmissaoDate p) \<noteq> [] \<and>
        (\<forall>k < 2 + length (Itens p) + length (Duplicatas p) + length (Pagamentos p).
           stmt_err env k = None) \<and>
        commit_err env = None) \<and>
     (r = Inl ErrNFeAlreadyExists \<longleftrightarrow>
        TrimSpace (EmissaoDate p) \<noteq> [] \<and>
        (\<exists>e. stmt_err env 0 = Some e \<and> isUniqueViolation e)) \<and>
     ((\<exists>nfeID. r = Inr nfeID) \<longrightarrow> tx_status t = TxCommitted) \<and>
     ((\<exists>e. r = Inl e) \<longrightarrow> tx_status t = tx_status t0 \<or> tx_status t = TxRolledBack)"
proof -
  let ?ni = "length (Itens p)" and ?nd = "length (Duplicatas p)" and ?np = "length (Pagamentos p)"
  note split = stmts_split [of ?ni ?nd ?np "\<lambda>k. stmt_err env k = None"]
  obtain t1 r1 where s1: "insertNFe env t0 p = (t1, r1)"
    by (cases "insertNFe env t0 p")
  note f1 = insertNFe_facts [OF s1, unfolded c0]
  show ?thesis
  proof (cases r1)
    case (Inl e1)
    with sb s1 have "t = t1" "r = Inl e1" by (simp_all add: save_body_def)
    with f1 Inl show ?thesis unfolding split by auto
  next
    case (Inr nfeID)
    with f1 have c1: "tx_count t1 = Suc 0" by simp
    obtain t2 r2 where s2: "insertNFeXML env t1 nfeID p = (t2, r2)"
      by (cases "insertNFeXML env t1 nfeID p")
    note f2 = insertNFeXML_facts [OF s2, unfolded c1]
    show ?thesis
    proof (cases r2)
      case (Some e2)
      with sb s1 s2 Inr have "t = t2" "r = Inl e2" by (simp_all add: save_body_def)
      moreover from s2 Some have "e2 \<noteq> ErrNFeAlreadyExists"
        using insertNFeXML_not_dup by blast
      ultimately show ?thesis using f1 f2 Inr Some unfolding split by auto
    next
      case None
      from f2 have c2: "tx_count t2 = 2" by simp
      obtain t3 r3 where s3: "insertItens env t2 nfeID (Itens p) = (t3, r3)"
        by (cases "insertItens env t2 nfeID (Itens p)")
      note f3 = insertItens_facts [OF s3, unfolded c2]
      show ?thesis
      proof (cases r3)
        case (Some e3)
        with sb s1 s2 s3 Inr None have "t = t3" "r = Inl e3" by (simp_all add: save_body_def)
        moreover from s3 Some have "e3 \<noteq> ErrNFeAlreadyExists"
          using insertItens_not_dup by blast
        ultimately show ?thesis using f1 f2 f3 Inr None Some unfolding split by auto
      next
        case None3: None
        with f3 have c3: "tx_count t3 = 2 + ?ni" by simp
        obtain t4 r4 where s4: "insertDuplicatas env t3 nfeID (Duplicatas p) = (t4, r4)"
          by (cases "insertDuplicatas env t3 nfeID (Duplicatas p)")
        note f4 = insertDuplicatas_facts [OF s4, unfolded c3]
        show ?thesis
        proof (cases r4)
          case (Some e4)
          with sb s1 s2 s3 s4 Inr None None3 have "t = t4" "r = Inl e4"
            by (simp_all add: save_body_def)
          moreover from s4 Some have "e4 \<noteq> ErrNFeAlreadyExists"
            using insertDuplicatas_not_dup by blast
          ultimately show ?thesis using f1 f2 f3 f4 Inr None None3 Some unfolding split by auto
        next
          case None4: None
          with f4 have c4: "tx_count t4 = 2 + ?ni + ?nd" by simp
          obtain t5 r5 where s5: "insertPagamentos env t4 nfeID (Pagamentos p) = (t5, r5)"
            by (cases "insertPagamentos env t4 nfeID (Pagamentos p)")
          note f5 = insertPagamentos_facts [OF s5, unfolded c4]
          show ?thesis
          proof (cases r5)
            case (Some e5)
            with sb s1 s2 s3 s4 s5 Inr None None3 None4 have "t = t5" "r = Inl e5"
              by (simp_all add: save_body_def)
            moreover from s5 Some have "e5 \<noteq> ErrNFeAlreadyExists"
              using insertPagamentos_not_dup by blast
            ultimately show ?thesis
              using f1 f2 f3 f4 f5 Inr None None3 None4 Some unfolding split by auto
          next
            case None5: None
            obtain t6 r6 where s6: "tx_Commit env t5 = (t6, r6)"
              by (cases "tx_Commit env t5")
            note f6 = tx_Commit_facts [OF s6]
            show ?thesis
            proof (cases "commit_err env")
              case (Some e6)
              with f6 sb s1 s2 s3 s4 s5 s6 Inr None None3 None4 None5
              have "t = t6" "r = Inl (ErrCommit e6)" by (simp_all add: save_body_def)
              then show ?thesis
                using f1 f2 f3 f4 f5 f6 Inr None None3 None4 None5 Some unfolding split by auto
            next
              case None6: None
              with f6 sb s1 s2 s3 s4 s5 s6 Inr None None3 None4 None5
              have "t = t6" "r = Inr nfeID" by (simp_all add: save_body_def)
              then show ?thesis
                using f1 f2 f3 f4 f5 f6 Inr None None3 None4 None5 None6 unfolding split by auto
            qed
          qed
        qed
      qed
    qed
  qed
qed

lemma TrimSpace_fixture_date: "TrimSpace ''2024-01-15'' = ''2024-01-15''"
  by (simp add: TrimSpace_def TrimLeft.simps TrimRight.simps whiteSpace_def HasPrefix_def
      HasSuffix_def)

text \<open>
  Claim C1. \<open>SaveNFeWithRelations\<close> is one transaction. Whenever it returns an error the
  store is what it was before the call, and, once \<open>Begin\<close> has succeeded, the transaction
  has been rolled back. The error is \<open>ErrNFeAlreadyExists\<close> (duplicate) exactly when the
  first statement, the insert into \<open>nfe\<close>, fails with SQL state 23505. The call succeeds
  exactly when the issue date is not empty and \<open>Begin\<close>, every one of the
  \<open>2 + |items| + |receivables| + |payments|\<close> insert statements and \<open>Commit\<close> succeed:
  an error at any insert step aborts, and every error other than the unique violation on
  the first insert is distinct from duplicate.
\<close>

theorem SaveNFeWithRelations_transaction:
  "SaveNFeWithRelations env db p = (t, r) \<Longrightarrow>
     ((\<exists>e. r = Inl e) \<longrightarrow> store_after db t = db) \<and>
     ((\<exists>e. r = Inl e) \<and> begin_err env = None \<longrightarrow> (\<exists>t'. t = Some t' \<and> tx_status t' = TxRolledBack)) \<and>
     (r = Inl ErrNFeAlreadyExists \<longleftrightarrow>
        begin_err env = None \<and> TrimSpace (EmissaoDate p) \<noteq> [] \<and>
        (\<exists>e. stmt_err env 0 = Some e \<and> isUniqueViolation e)) \<and>
     ((\<exists>nfeID. r = Inr nfeID) \<longleftrightarrow>
        begin_err env = None \<and> TrimSpace (EmissaoDate p) \<noteq> [] \<and>
        (\<forall>k < 2 + length (Itens p) + length (Duplicatas p) + length (Pagamentos p).
           stmt_err env k = None) \<and>
        commit_err env = None)"
proof (cases "begin_err env")
  case (Some e)
  assume "SaveNFeWithRelations env db p = (t, r)"
  with Some have "t = None" "r = Inl (ErrBegin e)"
    by (simp_all add: SaveNFeWithRelations_def db_Begin_def)
  with Some show ?thesis by (simp add: store_after_def)
next
  case None
  assume sv: "SaveNFeWithRelations env db p = (t, r)"
  let ?t0 = "\<lparr>tx_base = db, tx_work = db, tx_count = 0, tx_status = TxActive\<rparr> :: 'a tx"
  obtain t1 r1 where sb: "save_body env ?t0 p = (t1, r1)"
    by (cases "save_body env ?t0 p")
  have f: "tx_base t1 = db \<and>
     ((\<exists>nfeID. r1 = Inr nfeID) \<longleftrightarrow>
        TrimSpace (EmissaoDate p) \<noteq> [] \<and>
        (\<forall>k < 2 + length (Itens p) + length (Duplicatas p) + length (Pagamentos p).
           stmt_err env k = None) \<and>
        commit_err env = None) \<and>
     (r1 = Inl ErrNFeAlreadyExists \<longleftrightarrow>
        TrimSpace (EmissaoDate p) \<noteq> [] \<and>
        (\<exists>e. stmt_err env 0 = Some e \<and> isUniqueViolation e)) \<and>
     ((\<exists>nfeID. r1 = Inr nfeID) \<longrightarrow> tx_status t1 = TxCommitted) \<and>
     ((\<exists>e. r1 = Inl e) \<longrightarrow> tx_status t1 = TxActive \<or> tx_status t1 = TxRolledBack)"
    using save_body_facts [OF sb] by simp
  show ?thesis
  proof (cases r1)
    case (Inl e1)
    with sv sb None have tr: "t = Some (tx_Rollback t1)" "r = Inl e1"
      by (simp_all add: SaveNFeWithRelations_def db_Begin_def)
    from f Inl have st: "tx_status t1 = TxActive \<or> tx_status t1 = TxRolledBack" by simp
    then have "tx_status (tx_Rollback t1) = TxRolledBack" "tx_base (tx_Rollback t1) = db"
      using f by (auto simp: tx_Rollback_def)
    with tr f Inl None show ?thesis by (auto simp: store_after_def tx_store_def)
  next
    case (Inr nfeID)
    with sv sb None have tr: "t = Some t1" "r = Inr nfeID"
      by (simp_all add: SaveNFeWithRelations_def db_Begin_def)
    with f Inr None show ?thesis by auto
  qed
qed

theorem SaveNFeWithRelations_transaction_witness:
  "snd (SaveNFeWithRelations fixture_env_duplicate (\<lambda>_. []) fixture_parsed) = Inl ErrNFeAlreadyExists \<and>
   store_after (\<lambda>_. []) (fst (SaveNFeWithRelations fixture_env_duplicate (\<lambda>_. []) fixture_parsed)) = (\<lambda>_. []) \<and>
   snd (SaveNFeWithRelations fixture_env_item_fails (\<lambda>_. []) fixture_parsed)
     = Inl (ErrInsertItem 1 7 (PgError ''23505'')) \<and>
   store_after (\<lambda>_. []) (fst (SaveNFeWithRelations fixture_env_item_fails (\<lambda>_. []) fixture_parsed)) = (\<lambda>_. [])"
proof -
  let ?db = "(\<lambda>_. []) :: rat store"
  obtain t1 r1 where a: "SaveNFeWithRelations fixture_env_duplicate ?db fixture_parsed = (t1, r1)"
    by (cases "SaveNFeWithRelations fixture_env_duplicate ?db fixture_parsed")
  obtain t2 r2 where b: "SaveNFeWithRelations fixture_env_item_fails ?db fixture_parsed = (t2, r2)"
    by (cases "SaveNFeWithRelations fixture_env_item_fails ?db fixture_parsed")
  have d: "TrimSpace (EmissaoDate fixture_parsed) \<noteq> []"
    by (simp add: fixture_parsed_def TrimSpace_fixture_date)
  have "r1 = Inl ErrNFeAlreadyExists" "store_after ?db t1 = ?db"
    using SaveNFeWithRelations_transaction [OF a] d
    by (auto simp: fixture_env_duplicate_def isUniqueViolation_def)
  moreover have "r2 = Inl (ErrInsertItem 1 7 (PgError ''23505''))"
    using b d
    by (simp add: SaveNFeWithRelations_def db_Begin_def save_body_def insertNFe_def
        insertNFeXML_def tx_QueryRow_def tx_Exec_def fixture_env_item_fails_def
        fixture_parsed_def fixture_item_def Let_def)
  moreover from this have "store_after ?db t2 = ?db"
    using SaveNFeWithRelations_transaction [OF b] by blast
  ultimately show ?thesis using a b by simp
qed

section \<open>Properties of the parser\<close>

lemma ParseFile_eq:
  "os_ReadFile w path = Inr data \<Longrightarrow> xsd_stage lib w data = None \<Longrightarrow>
   ParseFile lib w path =
     (case accepted_record lib data of
        Some (nf, prot) \<Rightarrow> Inr (build_from lib nf prot data (sha256_hex lib data))
      | None \<Rightarrow> Inl (ErrNotRecognized path))"
  by (simp add: ParseFile_def accepted_record_def buildParsedFrom_def Let_def split: option.splits)

lemma ParseFile_Inr:
  "ParseFile lib w path = Inr p \<Longrightarrow>
   \<exists>data nf prot. os_ReadFile w path = Inr data \<and> xsd_stage lib w data = None \<and>
      accepted_record lib data = Some (nf, prot) \<and>
      p = build_from lib nf prot data (sha256_hex lib data)"
  by (auto simp: ParseFile_def accepted_record_def buildParsedFrom_def Let_def
      split: sum.splits option.splits)

lemma TrimSpace_Nil: "TrimSpace [] = []"
  by (simp add: TrimSpace_def TrimLeft.simps TrimRight.simps whiteSpace_def HasPrefix_def
      HasSuffix_def)

lemma normalizeDateYMD_empty: "TrimSpace d = [] \<Longrightarrow> normalizeDateYMD lib d = []"
  by (simp add: normalizeDateYMD_def)

subsection \<open>Evaluating the fixtures\<close>

lemma xsd_stage_fixture: "xsd_stage fixture_lib fixture_world data = None"
  by (simp add: xsd_stage_def fixture_lib_def fixture_world_def ascii_lower_def)

lemma accepted_no_date:
  "accepted_record fixture_lib doc_no_date = Some (nfe_InfNFe nfe_no_date, None)"
  by (simp add: accepted_record_def accept_nfeProc_def accept_nfe_def fixture_lib_def
      doc_no_date_def doc_short_key_def nfe_no_date_def)

lemma accepted_short_key:
  "accepted_record fixture_lib doc_short_key
     = Some (nfe_InfNFe (proc_NFe proc_short_key), proc_ProtNFe proc_short_key)"
  by (simp add: accepted_record_def accept_nfeProc_def fixture_lib_def proc_short_key_def)


lemma accepted_mod_zero: "accepted_record fixture_lib doc_mod_zero = None"
  by (simp add: accepted_record_def accept_nfeProc_def accept_nfe_def fixture_lib_def
      doc_no_date_def doc_short_key_def doc_negative_def doc_mod_zero_def nfe_mod_zero_def
      zero_infNFe_def zero_ide_def)

lemma read_no_date: "os_ReadFile fixture_world ''/data/processing/no_date.xml'' = Inr doc_no_date"
  by (simp add: fixture_world_def)

lemma read_short_key:
  "os_ReadFile fixture_world ''/data/processing/short_key.xml'' = Inr doc_short_key"
  by (simp add: fixture_world_def)

lemma read_negative:
  "os_ReadFile fixture_world ''/data/processing/negative.xml'' = Inr doc_negative"
  by (simp add: fixture_world_def)

lemma read_mod_zero:
  "os_ReadFile fixture_world ''/data/processing/mod_zero.xml'' = Inr doc_mod_zero"
  by (simp add: fixture_world_def)

lemma accepted_items:
  "accepted_record fixture_lib doc_items = Some (nfe_InfNFe nfe_items, None)"
  by (simp add: accepted_record_def accept_nfeProc_def accept_nfe_def fixture_lib_def
      doc_no_date_def doc_short_key_def doc_negative_def doc_mod_zero_def doc_items_def
      nfe_items_def zero_infNFe_def zero_ide_def)

lemma read_items: "os_ReadFile fixture_world ''/data/processing/items.xml'' = Inr doc_items"
  by (simp add: fixture_world_def)

lemma ParseFile_items:
  "ParseFile fixture_lib fixture_world ''/data/processing/items.xml''
     = Inr (build_from fixture_lib (nfe_InfNFe nfe_items) None doc_items
              (sha256_hex fixture_lib doc_items))"
  by (simp add: ParseFile_eq [OF read_items xsd_stage_fixture] accepted_items)

lemma ParseFile_no_date:
  "ParseFile fixture_lib fixture_world ''/data/processing/no_date.xml''
     = Inr (build_from fixture_lib (nfe_InfNFe nfe_no_date) None doc_no_date
              (sha256_hex fixture_lib doc_no_date))"
  by (simp add: ParseFile_eq [OF read_no_date xsd_stage_fixture] accepted_no_date)

lemma ParseFile_short_key:
  "ParseFile fixture_lib fixture_world ''/data/processing/short_key.xml''
     = Inr (build_from fixture_lib (nfe_InfNFe (proc_NFe proc_short_key))
              (proc_ProtNFe proc_short_key) doc_short_key (sha256_hex fixture_lib doc_short_key))"
  by (simp add: ParseFile_eq [OF read_short_key xsd_stage_fixture] accepted_short_key)


subsection \<open>Issue date\<close>

lemma EmissaoDate_build_from:
  "EmissaoDate (build_from lib nf prot raw h) = normalizeDateYMD lib (build_emissao nf)"
  by (simp add: build_from_def)

lemma ChaveAcesso_build_from:
  "ChaveAcesso (build_from lib nf prot raw h) = build_chave nf prot"
  by (simp add: build_from_def)

lemma Modelo_build_from:
  "Modelo (build_from lib nf prot raw h) = ide_Modelo (inf_Ide nf)"
  by (simp add: build_from_def)

lemma Save_empty_issue_date:
  assumes "TrimSpace (EmissaoDate p) = []" and "begin_err env = None"
  shows "snd (SaveNFeWithRelations env db p) = Inl (ErrEmissaoVazia (ChaveAcesso p)) \<and>
         store_after db (fst (SaveNFeWithRelations env db p)) = db"
  using assms
  by (simp add: SaveNFeWithRelations_def db_Begin_def save_body_def insertNFe_def
      store_after_def tx_store_def tx_Rollback_def)

text \<open>
  Against claim C2 as stated: the bare \<open>NFe\<close> document \<open>doc_no_date\<close> has model 55 and
  neither \<open>dhEmi\<close> nor \<open>dEmi\<close>; \<open>ParseFile\<close> does not return an error for it but an
  invoice whose issue date is empty.
\<close>

theorem ParseFile_no_date_counterexample:
  "map_sum id EmissaoDate (ParseFile fixture_lib fixture_world ''/data/processing/no_date.xml'')
     = Inr []"
  by (simp add: ParseFile_no_date EmissaoDate_build_from build_emissao_def nfe_no_date_def
      zero_infNFe_def zero_ide_def normalizeDateYMD_empty TrimSpace_Nil)

text \<open>
  Claim C2, amended. An input whose \<open>dhEmi\<close> and \<open>dEmi\<close> are absent or empty is not
  rejected by \<open>ParseFile\<close> on that account: when the file is read, validation passes and a
  record is accepted (non-zero model), \<open>ParseFile\<close> returns an invoice whose issue date is
  empty. The empty issue date is rejected by the persister: once \<open>Begin\<close> has succeeded,
  \<open>SaveNFeWithRelations\<close> returns the error \<open>ErrEmissaoVazia\<close> (not duplicate) and leaves
  the store as it was.
\<close>

theorem ParseFile_empty_issue_date:
  assumes "os_ReadFile w path = Inr data"
    and "xsd_stage lib w data = None"
    and "accepted_record lib data = Some (nf, prot)"
    and "ide_DhEmi (inf_Ide nf) = []"
    and "ide_DEmi (inf_Ide nf) = []"
  shows "\<exists>p. ParseFile lib w path = Inr p \<and> EmissaoDate p = [] \<and>
           (\<forall>env db. begin_err env = None \<longrightarrow>
              snd (SaveNFeWithRelations env db p) = Inl (ErrEmissaoVazia (ChaveAcesso p)) \<and>
              store_after db (fst (SaveNFeWithRelations env db p)) = db)"
proof -
  let ?p = "build_from lib nf prot data (sha256_hex lib data)"
  have pf: "ParseFile lib w path = Inr ?p"
    using assms(1-3) by (simp add: ParseFile_eq)
  have em: "EmissaoDate ?p = []"
    using assms(4,5)
    by (simp add: EmissaoDate_build_from build_emissao_def normalizeDateYMD_empty TrimSpace_Nil)
  then have "TrimSpace (EmissaoDate ?p) = []" by (simp add: TrimSpace_Nil)
  with pf em show ?thesis using Save_empty_issue_date by blast
qed

theorem ParseFile_empty_issue_date_witness:
  "isl (ParseFile fixture_lib fixture_world ''/data/processing/no_date.xml'') = False \<and>
   EmissaoDate (projr (ParseFile fixture_lib fixture_world ''/data/processing/no_date.xml'')) = [] \<and>
   snd (SaveNFeWithRelations fixture_env_duplicate (\<lambda>_. [])
          (projr (ParseFile fixture_lib fixture_world ''/data/processing/no_date.xml'')))
     = Inl (ErrEmissaoVazia [])"
proof -
  have a: "ide_DhEmi (inf_Ide (nfe_InfNFe nfe_no_date)) = []"
    and b: "ide_DEmi (inf_Ide (nfe_InfNFe nfe_no_date)) = []"
    by (simp_all add: nfe_no_date_def zero_infNFe_def zero_ide_def)
  have c: "begin_err fixture_env_duplicate = None"
    by (simp add: fixture_env_duplicate_def)
  obtain p where p: "ParseFile fixture_lib fixture_world ''/data/processing/no_date.xml'' = Inr p"
    and e: "EmissaoDate p = []"
    and s: "\<forall>env db. begin_err env = None \<longrightarrow>
              snd (SaveNFeWithRelations env (db :: rat store) p) = Inl (ErrEmissaoVazia (ChaveAcesso p)) \<and>
              store_after db (fst (SaveNFeWithRelations env db p)) = db"
    using ParseFile_empty_issue_date [OF read_no_date xsd_stage_fixture accepted_no_date a b]
    by blast
  from p have pe: "p = build_from fixture_lib (nfe_InfNFe nfe_no_date) None doc_no_date
      (sha256_hex fixture_lib doc_no_date)"
    by (simp add: ParseFile_no_date)
  have k: "ChaveAcesso p = []"
    by (simp add: pe ChaveAcesso_build_from build_chave_def extractChave_def
        nfe_no_date_def zero_infNFe_def TrimSpace_Nil TrimPrefix_def HasPrefix_def
        onlyDigits_def)
  from s c k have "snd (SaveNFeWithRelations fixture_env_duplicate (\<lambda>_. []) p)
      = Inl (ErrEmissaoVazia [])"
    by metis
  with p e show ?thesis by simp
qed


subsection \<open>Access key\<close>

lemma onlyDigits_digits: "\<forall>c \<in> set (onlyDigits s). isDigit c"
  by (simp add: onlyDigits_def)

lemma build_chave_eq:
  "build_chave nf prot =
     (case prot of
        Some pr \<Rightarrow>
          if onlyDigits (infProt_ChNFe (prot_InfProt pr)) \<noteq> []
          then onlyDigits (infProt_ChNFe (prot_InfProt pr))
          else onlyDigits (TrimPrefix (TrimSpace (inf_ID nf)) ''NFe'')
      | None \<Rightarrow> onlyDigits (TrimPrefix (TrimSpace (inf_ID nf)) ''NFe''))"
  by (auto simp: build_chave_def extractChave_def Let_def onlyDigits_def split: option.splits)

lemma build_chave_digits: "\<forall>c \<in> set (build_chave nf prot). isDigit c"
  by (auto simp: build_chave_def Let_def onlyDigits_def split: option.splits)

text \<open>
  Against claim C3 as stated: the envelope \<open>doc_short_key\<close> carries \<open>chNFe = 123\<close>; the
  parser accepts it and the access key is \<open>123\<close>, three digits and not 44.
\<close>

theorem ParseFile_short_key_counterexample:
  "map_sum id ChaveAcesso (ParseFile fixture_lib fixture_world ''/data/processing/short_key.xml'')
     = Inr ''123''"
  by (simp add: ParseFile_short_key ChaveAcesso_build_from build_chave_def proc_short_key_def
      onlyDigits_def isDigit_def)

text \<open>
  Claim C3, amended. For every invoice the parser accepts, the access key consists of
  decimal digits only; its length is not checked. It is the digits of the protocol
  envelope's \<open>chNFe\<close> when the envelope is present and \<open>chNFe\<close> holds at least one digit, and
  otherwise the digits of the \<open>infNFe\<close> \<open>Id\<close> attribute after white space and a leading
  \<open>NFe\<close> are trimmed: every character that is not a digit is dropped, wherever it stands.
\<close>

theorem ParseFile_access_key:
  "ParseFile lib w path = Inr p \<Longrightarrow>
     (\<forall>c \<in> set (ChaveAcesso p). isDigit c) \<and>
     (\<exists>data nf prot.
        os_ReadFile w path = Inr data \<and> accepted_record lib data = Some (nf, prot) \<and>
        ChaveAcesso p =
          (case prot of
             Some pr \<Rightarrow>
               if onlyDigits (infProt_ChNFe (prot_InfProt pr)) \<noteq> []
               then onlyDigits (infProt_ChNFe (prot_InfProt pr))
               else onlyDigits (TrimPrefix (TrimSpace (inf_ID nf)) ''NFe'')
           | None \<Rightarrow> onlyDigits (TrimPrefix (TrimSpace (inf_ID nf)) ''NFe'')))"
proof -
  assume "ParseFile lib w path = Inr p"
  then obtain data nf prot where rd: "os_ReadFile w path = Inr data"
    and ac: "accepted_record lib data = Some (nf, prot)"
    and p: "p = build_from lib nf prot data (sha256_hex lib data)"
    using ParseFile_Inr by blast
  have k: "ChaveAcesso p = build_chave nf prot"
    by (simp add: p ChaveAcesso_build_from)
  have "\<forall>c \<in> set (ChaveAcesso p). isDigit c"
    unfolding k by (rule build_chave_digits)
  moreover have "ChaveAcesso p =
          (case prot of
             Some pr \<Rightarrow>
               if onlyDigits (infProt_ChNFe (prot_InfProt pr)) \<noteq> []
               then onlyDigits (infProt_ChNFe (prot_InfProt pr))
               else onlyDigits (TrimPrefix (TrimSpace (inf_ID nf)) ''NFe'')
           | None \<Rightarrow> onlyDigits (TrimPrefix (TrimSpace (inf_ID nf)) ''NFe''))"
    unfolding k by (rule build_chave_eq)
  ultimately show ?thesis using rd ac by blast
qed

theorem ParseFile_access_key_witness:
  "ParseFile fixture_lib fixture_world ''/data/processing/short_key.xml''
     = Inr (build_from fixture_lib (nfe_InfNFe (proc_NFe proc_short_key))
              (proc_ProtNFe proc_short_key) doc_short_key (sha256_hex fixture_lib doc_short_key)) \<and>
   list_all isDigit
     (ChaveAcesso (build_from fixture_lib (nfe_InfNFe (proc_NFe proc_short_key))
        (proc_ProtNFe proc_short_key) doc_short_key (sha256_hex fixture_lib doc_short_key)))"
  using ParseFile_access_key [OF ParseFile_short_key] ParseFile_short_key
  by (simp add: list_all_iff)

subsection \<open>The two unmarshal attempts\<close>

text \<open>
  Claim C6. Once the file is read and validation has passed, \<open>ParseFile\<close> builds its result
  from the \<open>nfeProc\<close> unmarshal when that succeeds with a non-zero \<open>mod\<close>; otherwise from
  the bare \<open>NFe\<close> unmarshal under the same test; otherwise it fails with the
  unrecognised-format error. Hence an input whose \<open>mod\<close> is 0 or missing in every
  successful unmarshal gives a parse error, and every invoice returned has a non-zero
  model.
\<close>

theorem ParseFile_two_attempts:
  "os_ReadFile w path = Inr data \<Longrightarrow>
     (xsd_stage lib w data = None \<longrightarrow>
        ParseFile lib w path =
          (case xml_Unmarshal_nfeProc lib data of
             Some proc \<Rightarrow>
               if ide_Modelo (inf_Ide (nfe_InfNFe (proc_NFe proc))) \<noteq> 0
               then buildParsedFrom lib (V_nfeProc proc) data (sha256_hex lib data)
               else (case xml_Unmarshal_nfe lib data of
                       Some n \<Rightarrow>
                         if ide_Modelo (inf_Ide (nfe_InfNFe n)) \<noteq> 0
                         then buildParsedFrom lib (V_nfe n) data (sha256_hex lib data)
                         else Inl (ErrNotRecognized path)
                     | None \<Rightarrow> Inl (ErrNotRecognized path))
           | None \<Rightarrow>
               (case xml_Unmarshal_nfe lib data of
                  Some n \<Rightarrow>
                    if ide_Modelo (inf_Ide (nfe_InfNFe n)) \<noteq> 0
                    then buildParsedFrom lib (V_nfe n) data (sha256_hex lib data)
                    else Inl (ErrNotRecognized path)
                | None \<Rightarrow> Inl (ErrNotRecognized path)))) \<and>
     ((\<forall>proc. xml_Unmarshal_nfeProc lib data = Some proc \<longrightarrow>
               ide_Modelo (inf_Ide (nfe_InfNFe (proc_NFe proc))) = 0) \<and>
      (\<forall>n. xml_Unmarshal_nfe lib data = Some n \<longrightarrow> ide_Modelo (inf_Ide (nfe_InfNFe n)) = 0)
      \<longrightarrow> isl (ParseFile lib w path)) \<and>
     (\<forall>p. ParseFile lib w path = Inr p \<longrightarrow> Modelo p \<noteq> 0)"
proof -
  assume rd: "os_ReadFile w path = Inr data"
  have 1: "xsd_stage lib w data = None \<longrightarrow>
        ParseFile lib w path =
          (case xml_Unmarshal_nfeProc lib data of
             Some proc \<Rightarrow>
               if ide_Modelo (inf_Ide (nfe_InfNFe (proc_NFe proc))) \<noteq> 0
               then buildParsedFrom lib (V_nfeProc proc) data (sha256_hex lib data)
               else (case xml_Unmarshal_nfe lib data of
                       Some n \<Rightarrow>
                         if ide_Modelo (inf_Ide (nfe_InfNFe n)) \<noteq> 0
                         then buildParsedFrom lib (V_nfe n) data (sha256_hex lib data)
                         else Inl (ErrNotRecognized path)
                     | None \<Rightarrow> Inl (ErrNotRecognized path))
           | None \<Rightarrow>
               (case xml_Unmarshal_nfe lib data of
                  Some n \<Rightarrow>
                    if ide_Modelo (inf_Ide (nfe_InfNFe n)) \<noteq> 0
                    then buildParsedFrom lib (V_nfe n) data (sha256_hex lib data)
                    else Inl (ErrNotRecognized path)
                | None \<Rightarrow> Inl (ErrNotRecognized path)))"
    using rd
    by (simp add: ParseFile_def accept_nfeProc_def accept_nfe_def Let_def split: option.splits)
  have 2: "(\<forall>proc. xml_Unmarshal_nfeProc lib data = Some proc \<longrightarrow>
               ide_Modelo (inf_Ide (nfe_InfNFe (proc_NFe proc))) = 0) \<and>
      (\<forall>n. xml_Unmarshal_nfe lib data = Some n \<longrightarrow> ide_Modelo (inf_Ide (nfe_InfNFe n)) = 0)
      \<longrightarrow> isl (ParseFile lib w path)"
    using rd
    by (auto simp: ParseFile_def accept_nfeProc_def accept_nfe_def Let_def split: option.splits)
  have 3: "\<forall>p. ParseFile lib w path = Inr p \<longrightarrow> Modelo p \<noteq> 0"
  proof (intro allI impI)
    fix p assume "ParseFile lib w path = Inr p"
    then obtain d nf prot where ac: "accepted_record lib d = Some (nf, prot)"
      and p: "p = build_from lib nf prot d (sha256_hex lib d)"
      using ParseFile_Inr by blast
    from ac have "ide_Modelo (inf_Ide nf) \<noteq> 0"
      by (auto simp: accepted_record_def accept_nfeProc_def accept_nfe_def
          split: option.splits if_splits)
    then show "Modelo p \<noteq> 0" by (simp add: p Modelo_build_from)
  qed
  from 1 2 3 show ?thesis by blast
qed

theorem ParseFile_two_attempts_witness:
  "ParseFile fixture_lib fixture_world ''/data/processing/mod_zero.xml''
     = Inl (ErrNotRecognized ''/data/processing/mod_zero.xml'') \<and>
   ParseFile fixture_lib fixture_world ''/data/processing/short_key.xml''
     = buildParsedFrom fixture_lib (V_nfeProc proc_short_key) doc_short_key
         (sha256_hex fixture_lib doc_short_key) \<and>
   ParseFile fixture_lib fixture_world ''/data/processing/negative.xml''
     = buildParsedFrom fixture_lib (V_nfe nfe_negative) doc_negative
         (sha256_hex fixture_lib doc_negative)"
proof -
  have u0: "xml_Unmarshal_nfeProc fixture_lib doc_mod_zero = None"
    and u1: "xml_Unmarshal_nfe fixture_lib doc_mod_zero = Some nfe_mod_zero"
    and u2: "xml_Unmarshal_nfeProc fixture_lib doc_short_key = Some proc_short_key"
    and u3: "xml_Unmarshal_nfeProc fixture_lib doc_negative = None"
    and u4: "xml_Unmarshal_nfe fixture_lib doc_negative = Some nfe_negative"
    by (simp_all add: fixture_lib_def doc_mod_zero_def doc_short_key_def doc_no_date_def
        doc_negative_def)
  have m0: "ide_Modelo (inf_Ide (nfe_InfNFe nfe_mod_zero)) = 0"
    and m2: "ide_Modelo (inf_Ide (nfe_InfNFe (proc_NFe proc_short_key))) = 55"
    and m4: "ide_Modelo (inf_Ide (nfe_InfNFe nfe_negative)) = 55"
    by (simp_all add: nfe_mod_zero_def proc_short_key_def nfe_negative_def zero_infNFe_def
        zero_ide_def)
  show ?thesis
    using ParseFile_two_attempts [OF read_mod_zero, of fixture_lib]
      ParseFile_two_attempts [OF read_short_key, of fixture_lib]
      ParseFile_two_attempts [OF read_negative, of fixture_lib]
    by (simp add: xsd_stage_fixture u0 u1 u2 u3 u4 m0 m2 m4)
qed


subsection \<open>Monetary fields\<close>




















lemma Itens_build_from:
  "Itens (build_from lib nf prot raw h) = map (buildItemFromDet lib) (inf_Det nf)"
  by (simp add: build_from_def)




lemma ParseFile_build_from:
  assumes "os_ReadFile w path = Inr data" and "accepted_record lib data = Some (nf, prot)"
    and "ParseFile lib w path = Inr p"
  shows "p = build_from lib nf prot data (sha256_hex lib data)"
proof -
  from assms(3) obtain data' nf' prot' where
    "os_ReadFile w path = Inr data'" "accepted_record lib data' = Some (nf', prot')"
    "p = build_from lib nf' prot' data' (sha256_hex lib data')"
    using ParseFile_Inr by blast
  with assms(1,2) show ?thesis by simp
qed




lemma parseFloat_fixture_comma: "parseFloat fixture_lib ''100,00'' = 100"
  by (simp add: parseFloat_def TrimSpace_def TrimLeft.simps TrimRight.simps whiteSpace_def
      HasPrefix_def HasSuffix_def ReplaceAll_def fixture_lib_def dec_ParseFloat_def
      split_sign_def isDigit_def)


lemma parseFloat_fixture_values:
  "parseFloat fixture_lib ''50.00'' = 50"
  "parseFloat fixture_lib ''9.00'' = 9"
  "parseFloat fixture_lib ''200.00'' = 200"
  "parseFloat fixture_lib ''36.00'' = 36"
  "parseFloat fixture_lib ''60.00'' = 60"
  "parseFloat fixture_lib ''12.00'' = 12"
  "parseFloat fixture_lib ''18.00'' = 18"
  by (simp_all add: parseFloat_def TrimSpace_def TrimLeft.simps TrimRight.simps whiteSpace_def
      HasPrefix_def HasSuffix_def ReplaceAll_def fixture_lib_def dec_ParseFloat_def
      split_sign_def isDigit_def)





subsection \<open>Determinism\<close>

lemma validateXMLWithXSD_cong:
  "os_Stat w1 sp = os_Stat w2 sp \<Longrightarrow> xsd_Init w1 = xsd_Init w2 \<Longrightarrow>
   xsd_NewXsdHandlerUrl w1 sp = xsd_NewXsdHandlerUrl w2 sp \<Longrightarrow>
   xsd_ValidateMem w1 sp data = xsd_ValidateMem w2 sp data \<Longrightarrow>
   validateXMLWithXSD w1 data sp = validateXMLWithXSD w2 data sp"
  by (simp add: validateXMLWithXSD_def cong: option.case_cong)

lemma xsd_stage_schema_path:
  "xsd_stage lib w data =
     (let xsdEnabled = strings_ToLower lib (os_Getenv w ''NFE_XSD_ENABLED'') in
      if xsdEnabled = ''true'' \<or> xsdEnabled = ''1'' \<or> xsdEnabled = ''yes'' then
        if os_Getenv w ''NFE_XSD_DIR'' = [] then Some ErrXsdDirUnset
        else if os_Getenv w ''NFE_XSD_MAIN'' = [] then Some ErrXsdMainUnset
        else validateXMLWithXSD w data (schema_path lib w)
      else None)"
  by (simp add: xsd_stage_def schema_path_def resolveXSDPath_def Let_def)

lemma xsd_stage_schema_config:
  assumes "schema_config lib w1 data = schema_config lib w2 data"
  shows "xsd_stage lib w1 data = xsd_stage lib w2 data"
proof -
  from assms have env: "os_Getenv w1 ''NFE_XSD_ENABLED'' = os_Getenv w2 ''NFE_XSD_ENABLED''"
    "os_Getenv w1 ''NFE_XSD_DIR'' = os_Getenv w2 ''NFE_XSD_DIR''"
    "os_Getenv w1 ''NFE_XSD_MAIN'' = os_Getenv w2 ''NFE_XSD_MAIN''"
    by (simp_all add: schema_config_def)
  then have sp: "schema_path lib w1 = schema_path lib w2"
    by (simp add: schema_path_def)
  from assms have "os_Stat w1 (schema_path lib w1) = os_Stat w2 (schema_path lib w2)"
    "xsd_Init w1 = xsd_Init w2"
    "xsd_NewXsdHandlerUrl w1 (schema_path lib w1) = xsd_NewXsdHandlerUrl w2 (schema_path lib w2)"
    "xsd_ValidateMem w1 (schema_path lib w1) data = xsd_ValidateMem w2 (schema_path lib w2) data"
    by (simp_all only: schema_config_def prod.inject list.inject)
  then have "validateXMLWithXSD w1 data (schema_path lib w2)
      = validateXMLWithXSD w2 data (schema_path lib w2)"
    unfolding sp by (rule validateXMLWithXSD_cong)
  then show ?thesis
    by (simp only: xsd_stage_schema_path env sp)
qed

lemma ParseFile_after_read:
  "os_ReadFile w path = Inr data \<Longrightarrow>
   ParseFile lib w path =
     (case xsd_stage lib w data of
        Some err \<Rightarrow> Inl err
      | None \<Rightarrow>
          (case accepted_record lib data of
             Some (nf, prot) \<Rightarrow> Inr (build_from lib nf prot data (sha256_hex lib data))
           | None \<Rightarrow> Inl (ErrNotRecognized path)))"
  by (simp add: ParseFile_def accepted_record_def buildParsedFrom_def Let_def split: option.splits)

text \<open>
  Claim C9. The parser's result is a function of the bytes read and of the schema
  configuration: two runs, in worlds that may differ in everything else (other files, other
  environment variables), on the same path with the same bytes (or the same read error) and
  the same schema configuration return equal results; on the same bytes under different
  file names they return the same invoice or the same error up to the file name the error
  message quotes.
\<close>

theorem ParseFile_deterministic:
  "(os_ReadFile w1 path = os_ReadFile w2 path \<and>
    (\<forall>data. os_ReadFile w1 path = Inr data \<longrightarrow>
       schema_config lib w1 data = schema_config lib w2 data)
    \<longrightarrow> ParseFile lib w1 path = ParseFile lib w2 path) \<and>
   (os_ReadFile w1 path1 = Inr b \<and> os_ReadFile w2 path2 = Inr b \<and>
    schema_config lib w1 b = schema_config lib w2 b
    \<longrightarrow> map_sum forget_path id (ParseFile lib w1 path1)
        = map_sum forget_path id (ParseFile lib w2 path2))"
proof (intro conjI impI)
  assume a: "os_ReadFile w1 path = os_ReadFile w2 path \<and>
    (\<forall>data. os_ReadFile w1 path = Inr data \<longrightarrow>
       schema_config lib w1 data = schema_config lib w2 data)"
  show "ParseFile lib w1 path = ParseFile lib w2 path"
  proof (cases "os_ReadFile w1 path")
    case (Inl err)
    with a have "os_ReadFile w2 path = Inl err" by simp
    with Inl show ?thesis by (simp add: ParseFile_def)
  next
    case (Inr data)
    with a have r2: "os_ReadFile w2 path = Inr data"
      and "schema_config lib w1 data = schema_config lib w2 data" by auto
    then have "xsd_stage lib w1 data = xsd_stage lib w2 data"
      using xsd_stage_schema_config by blast
    then show ?thesis
      by (simp add: ParseFile_after_read [OF Inr] ParseFile_after_read [OF r2])
  qed
next
  assume b: "os_ReadFile w1 path1 = Inr b \<and> os_ReadFile w2 path2 = Inr b \<and>
    schema_config lib w1 b = schema_config lib w2 b"
  then have x: "xsd_stage lib w1 b = xsd_stage lib w2 b"
    using xsd_stage_schema_config by blast
  from b have r1: "os_ReadFile w1 path1 = Inr b" and r2: "os_ReadFile w2 path2 = Inr b"
    by simp_all
  show "map_sum forget_path id (ParseFile lib w1 path1)
        = map_sum forget_path id (ParseFile lib w2 path2)"
    by (simp add: ParseFile_after_read [OF r1] ParseFile_after_read [OF r2] x forget_path_def
        split: option.splits)
qed

theorem ParseFile_deterministic_witness:
  "ParseFile fixture_lib fixture_world ''/data/processing/negative.xml''
     = ParseFile fixture_lib fixture_world_other ''/data/processing/negative.xml'' \<and>
   os_ReadFile fixture_world ''/data/processing/extra.xml''
     \<noteq> os_ReadFile fixture_world_other ''/data/processing/extra.xml'' \<and>
   os_Getenv fixture_world ''HOME'' \<noteq> os_Getenv fixture_world_other ''HOME''"
proof -
  have rd: "os_ReadFile fixture_world ''/data/processing/negative.xml''
      = os_ReadFile fixture_world_other ''/data/processing/negative.xml''"
    by (simp add: fixture_world_other_def fixture_world_def)
  have sc: "schema_config fixture_lib fixture_world data
      = schema_config fixture_lib fixture_world_other data" for data
    by (simp add: schema_config_def schema_path_def fixture_world_other_def fixture_world_def)
  have "ParseFile fixture_lib fixture_world ''/data/processing/negative.xml''
     = ParseFile fixture_lib fixture_world_other ''/data/processing/negative.xml''"
    using ParseFile_deterministic [of fixture_world "''/data/processing/negative.xml''"
        fixture_world_other fixture_lib] rd sc
    by blast
  moreover have "os_ReadFile fixture_world ''/data/processing/extra.xml''
     \<noteq> os_ReadFile fixture_world_other ''/data/processing/extra.xml''"
    by (simp add: fixture_world_other_def fixture_world_def)
  moreover have "os_Getenv fixture_world ''HOME'' \<noteq> os_Getenv fixture_world_other ''HOME''"
    by (simp add: fixture_world_other_def fixture_world_def)
  ultimately show ?thesis by blast
qed

subsection \<open>ICMS extraction\<close>

lemma first_present_if:
  "first_present lib g (v # vs) =
     (if variant_fill lib g v \<noteq> None then the (variant_fill lib g v)
      else first_present lib g vs)"
  by (simp split: option.splits)

lemma extractICMS_first_present: "extractICMS lib g = first_present lib g source_order"
  unfolding extractICMS_def source_order_def first_present_if
  by (simp add: fill_base_value_def fill_all_four_def fill_st_def fill_st_only_def
      option.map_sel cong: if_cong)

lemma first_present_none:
  "(\<forall>v \<in> set vs. variant_fill lib g v = None) \<Longrightarrow> first_present lib g vs = (0, 0, 0, 0)"
  by (induction vs) auto

lemma first_present_single:
  "n \<in> set vs \<Longrightarrow> variant_fill lib g n = Some t \<Longrightarrow>
   (\<forall>m \<in> set vs. m \<noteq> n \<longrightarrow> variant_fill lib g m = None) \<Longrightarrow> first_present lib g vs = t"
  by (induction vs) (auto split: option.splits)

lemma spec_order_all: "n \<in> set spec_order"
  by (cases n) (simp_all add: spec_order_def)

lemma not_in_source_order:
  "n \<notin> set source_order \<Longrightarrow> variant_fill lib g n = Some t \<Longrightarrow> t = (0, 0, 0, 0)"
  by (cases n) (auto simp: source_order_def)

lemma item_icms_buildItemFromDet:
  "item_icms (buildItemFromDet lib d) = extractICMS lib (imp_ICMS (det_Imposto d))"
  by (simp add: item_icms_def buildItemFromDet_def split: prod.splits)

lemma extractICMS_single_variant:
  assumes one: "\<forall>m. m \<noteq> n \<longrightarrow> variant_fill lib g m = None"
  shows "extractICMS lib g = spec_extractICMS lib g"
proof (cases "variant_fill lib g n")
  case None
  with one have "\<forall>m. variant_fill lib g m = None" by metis
  then show ?thesis
    by (simp add: extractICMS_first_present spec_extractICMS_def first_present_none)
next
  case (Some t)
  have sp: "spec_extractICMS lib g = t"
    unfolding spec_extractICMS_def
    using spec_order_all Some one by (intro first_present_single) auto
  show ?thesis
  proof (cases "n \<in> set source_order")
    case True
    then have "first_present lib g source_order = t"
      using Some one by (intro first_present_single) auto
    with sp show ?thesis by (simp add: extractICMS_first_present)
  next
    case False
    with one have "\<forall>v \<in> set source_order. variant_fill lib g v = None" by metis
    then have "first_present lib g source_order = (0, 0, 0, 0)"
      by (rule first_present_none)
    moreover from False Some have "t = (0, 0, 0, 0)" by (rule not_in_source_order)
    ultimately show ?thesis using sp by (simp add: extractICMS_first_present)
  qed
qed

lemma fixture_icms_fields:
  "ICMS00 fixture_icms_30_70 = None" "ICMS20 fixture_icms_30_70 = None"
  "ICMS51 fixture_icms_30_70 = None" "ICMS10 fixture_icms_30_70 = None"
  "ICMS30 fixture_icms_30_70 = Some \<lparr>isv_VBC = ''100.00'', isv_VICMS = ''18.00'',
                      isv_VBCST = ''50.00'', isv_VICMSST = ''9.00''\<rparr>"
  "ICMS70 fixture_icms_30_70 = Some \<lparr>isv_VBC = ''200.00'', isv_VICMS = ''36.00'',
                      isv_VBCST = ''60.00'', isv_VICMSST = ''12.00''\<rparr>"
  "ICMS00 fixture_icms_00 = Some \<lparr>iv_VBC = ''100,00'', iv_VICMS = ''18.00''\<rparr>"
  by (simp_all add: fixture_icms_30_70_def fixture_icms_00_def zero_icmsGroup_def)

lemma fixture_icms_source:
  "first_present fixture_lib fixture_icms_00 source_order = (100, 18, 0, 0)"
  "first_present fixture_lib fixture_icms_30_70 source_order = (0, 0, 50, 9)"
  unfolding source_order_def
  by (simp_all add: fixture_icms_fields fill_base_value_def fill_st_def
      parseFloat_fixture_values parseFloat_fixture_comma)

lemma fixture_icms_spec:
  "spec_extractICMS fixture_lib fixture_icms_00 = (100, 18, 0, 0)"
  "spec_extractICMS fixture_lib fixture_icms_30_70 = (200, 36, 60, 12)"
  unfolding spec_extractICMS_def spec_order_def
  by (simp_all add: fixture_icms_fields fill_base_value_def fill_all_four_def
      parseFloat_fixture_values parseFloat_fixture_comma)

lemma fixture_items_groups:
  "inf_Det (nfe_InfNFe nfe_items) = [det_one, det_two]"
  "imp_ICMS (det_Imposto det_one) = fixture_icms_00"
  "imp_ICMS (det_Imposto det_two) = fixture_icms_30_70"
  by (simp_all add: nfe_items_def zero_infNFe_def det_one_def det_two_def)

text \<open>
  Against claim C7 as stated: the second item of the document \<open>doc_items\<close> has both an
  ICMS30 and an ICMS70 element. The order of the specification's table reaches ICMS70 first
  and fills all four values, \<open>(200, 36, 60, 12)\<close>; the item that the parser returns has the
  values of ICMS30, the two substitution values only, \<open>(0, 0, 50, 9)\<close>.
\<close>

theorem ParseFile_item_icms_counterexample:
  "map_sum id (\<lambda>p. map item_icms (Itens p))
     (ParseFile fixture_lib fixture_world ''/data/processing/items.xml'')
     = Inr [(100, 18, 0, 0), (0, 0, 50, 9)] \<and>
   map (\<lambda>d. spec_extractICMS fixture_lib (imp_ICMS (det_Imposto d)))
     (inf_Det (nfe_InfNFe nfe_items))
     = [(100, 18, 0, 0), (200, 36, 60, 12)]"
  by (simp add: ParseFile_items Itens_build_from item_icms_buildItemFromDet
      extractICMS_first_present fixture_items_groups fixture_icms_source fixture_icms_spec)

text \<open>
  Claim C7, amended. Let \<open>nf\<close> be the \<open>infNFe\<close> that the parser accepted for the file and
  \<open>p\<close> the invoice it returns. The invoice has one item for each \<open>det\<close> element, in the
  document's order, and the four ICMS values of every item are those of the first variant
  present under the \<open>imposto/ICMS\<close> of its \<open>det\<close>, in the order the source tests them:
  ICMS00, ICMS20, ICMS51, ICMS10, ICMS30, ICMS70, ICMS90, ICMSPart, ICMSSN201, ICMSSN202,
  ICMSSN500, ICMSSN900, each filling what the table of the specification defines; all four
  are 0 when none of these is present (ICMS40, ICMSSN101 and ICMSSN102 fill nothing). For
  an item with at most one variant present, the values are the ones the specification's
  order gives.
\<close>

theorem ParseFile_item_icms:
  assumes "os_ReadFile w path = Inr data" and "accepted_record lib data = Some (nf, prot)"
    and "ParseFile lib w path = Inr p"
  shows
    "length (Itens p) = length (inf_Det nf) \<and>
     (\<forall>i < length (inf_Det nf).
        item_icms (Itens p ! i)
          = first_present lib (imp_ICMS (det_Imposto (inf_Det nf ! i))) source_order \<and>
        ((\<exists>n. \<forall>m. m \<noteq> n \<longrightarrow> variant_fill lib (imp_ICMS (det_Imposto (inf_Det nf ! i))) m = None)
           \<longrightarrow> item_icms (Itens p ! i)
                 = spec_extractICMS lib (imp_ICMS (det_Imposto (inf_Det nf ! i)))))"
proof -
  have p: "p = build_from lib nf prot data (sha256_hex lib data)"
    using assms by (rule ParseFile_build_from)
  have len: "length (Itens p) = length (inf_Det nf)"
    unfolding p Itens_build_from by simp
  have item: "item_icms (Itens p ! i) = extractICMS lib (imp_ICMS (det_Imposto (inf_Det nf ! i)))"
    if "i < length (inf_Det nf)" for i
    unfolding p Itens_build_from using that by (simp add: item_icms_buildItemFromDet)
  show ?thesis
  proof (intro conjI allI impI)
    show "length (Itens p) = length (inf_Det nf)" by (rule len)
  next
    fix i assume "i < length (inf_Det nf)"
    then show "item_icms (Itens p ! i)
        = first_present lib (imp_ICMS (det_Imposto (inf_Det nf ! i))) source_order"
      by (simp add: item extractICMS_first_present)
  next
    fix i
    assume i: "i < length (inf_Det nf)"
      and "\<exists>n. \<forall>m. m \<noteq> n \<longrightarrow> variant_fill lib (imp_ICMS (det_Imposto (inf_Det nf ! i))) m = None"
    then obtain n where
      "\<forall>m. m \<noteq> n \<longrightarrow> variant_fill lib (imp_ICMS (det_Imposto (inf_Det nf ! i))) m = None"
      by blast
    then have "extractICMS lib (imp_ICMS (det_Imposto (inf_Det nf ! i)))
        = spec_extractICMS lib (imp_ICMS (det_Imposto (inf_Det nf ! i)))"
      by (rule extractICMS_single_variant)
    with i show "item_icms (Itens p ! i)
        = spec_extractICMS lib (imp_ICMS (det_Imposto (inf_Det nf ! i)))"
      by (simp add: item)
  qed
qed

theorem ParseFile_item_icms_witness:
  "map_sum id (\<lambda>p. (length (Itens p), item_icms (Itens p ! 0), item_icms (Itens p ! 1)))
     (ParseFile fixture_lib fixture_world ''/data/processing/items.xml'')
     = Inr (2, (100, 18, 0, 0), (0, 0, 50, 9)) \<and>
   spec_extractICMS fixture_lib (imp_ICMS (det_Imposto (inf_Det (nfe_InfNFe nfe_items) ! 0)))
     = (100, 18, 0, 0)"
proof -
  let ?p = "build_from fixture_lib (nfe_InfNFe nfe_items) None doc_items
              (sha256_hex fixture_lib doc_items)"
  note th = ParseFile_item_icms [OF read_items accepted_items ParseFile_items]
  have one: "\<exists>n. \<forall>m. m \<noteq> n \<longrightarrow>
      variant_fill fixture_lib (imp_ICMS (det_Imposto (inf_Det (nfe_InfNFe nfe_items) ! 0))) m
        = None"
  proof (intro exI [of _ V_ICMS00] allI impI)
    fix m :: icms_variant assume "m \<noteq> V_ICMS00"
    then show "variant_fill fixture_lib
        (imp_ICMS (det_Imposto (inf_Det (nfe_InfNFe nfe_items) ! 0))) m = None"
      by (cases m)
        (simp_all add: fixture_items_groups fixture_icms_00_def zero_icmsGroup_def)
  qed
  have l: "length (inf_Det (nfe_InfNFe nfe_items)) = 2"
    by (simp add: fixture_items_groups)
  from th have len: "length (Itens ?p) = 2"
    by (simp add: l)
  from th l have i0: "item_icms (Itens ?p ! 0)
      = first_present fixture_lib (imp_ICMS (det_Imposto (inf_Det (nfe_InfNFe nfe_items) ! 0)))
          source_order"
    by simp
  from th l have i1: "item_icms (Itens ?p ! 1)
      = first_present fixture_lib (imp_ICMS (det_Imposto (inf_Det (nfe_InfNFe nfe_items) ! 1)))
          source_order"
    by simp
  have "0 < length (inf_Det (nfe_InfNFe nfe_items))"
    by (simp add: l)
  from th [THEN conjunct2, rule_format, OF this] one
  have s0: "item_icms (Itens ?p ! 0)
      = spec_extractICMS fixture_lib (imp_ICMS (det_Imposto (inf_Det (nfe_InfNFe nfe_items) ! 0)))"
    by blast
  have v0: "item_icms (Itens ?p ! 0) = (100, 18, 0, 0)"
    unfolding i0 by (simp add: fixture_items_groups fixture_icms_source)
  have v1: "item_icms (Itens ?p ! 1) = (0, 0, 50, 9)"
    unfolding i1 by (simp add: fixture_items_groups fixture_icms_source)
  from s0 v0 have "spec_extractICMS fixture_lib
      (imp_ICMS (det_Imposto (inf_Det (nfe_InfNFe nfe_items) ! 0))) = (100, 18, 0, 0)"
    by simp
  with len v0 v1 show ?thesis
    by (simp add: ParseFile_items)
qed

section \<open>Retry policy of the consumer\<close>

lemma int32_of_succ:
  "0 \<le>s retries \<Longrightarrow> retries <s (maxr :: 64 word) \<Longrightarrow> sint maxr \<le> 2 ^ 31 - 1 \<Longrightarrow>
   sint (scast (retries + 1) :: 32 word) = sint retries + 1"
proof -
  assume a: "0 \<le>s retries" "retries <s maxr" "sint maxr \<le> 2 ^ 31 - 1"
  then have r: "0 \<le> sint retries" "sint retries < 2 ^ 31 - 1"
    by (simp_all add: word_sle_eq word_sless_alt)
  have "sint (retries + 1) = signed_take_bit 63 (sint retries + 1)"
    by (simp add: sint_word_add)
  also have "\<dots> = sint retries + 1"
    using r by (intro signed_take_bit_int_eq_self) simp_all
  finally have s: "sint (retries + 1) = sint retries + 1" .
  have "sint (scast (retries + 1) :: 32 word) = signed_take_bit 31 (sint (retries + 1))"
    by (simp add: signed_scast_eq)
  also have "\<dots> = sint retries + 1"
    unfolding s using r by (intro signed_take_bit_int_eq_self) simp_all
  finally show ?thesis .
qed

text \<open>
  Against claim C4 as stated: a delivery whose \<open>x-retries\<close> header is the 16-bit integer 5
  is not taken as 5 retries. With \<open>max_retries = 3\<close> and a failing handler the claim asks for
  a nack; the consumer reads 0, republishes the body with \<open>x-retries = 1\<close> and acks.
\<close>

theorem consume_delivery_int16_counterexample:
  "consume_delivery fixture_rmq fixture_consumer (delivery_with (A_int16 5))
     = [Ev_Publish \<lparr>pub_ContentType = ''application/json'', pub_Body = fixture_body,
                     pub_Persistent = True, pub_Headers = [''x-retries'' \<mapsto> A_int32 1]\<rparr>,
        Ev_Ack False]"
  by (simp add: consume_delivery_def fixture_consumer_def fixture_rmq_def delivery_with_def
      extractRetries_def publish_def Let_def word_sless_alt)


lemma extractRetries_cases:
  "extractRetries c None = 0"
  "h ''x-retries'' = None \<Longrightarrow> extractRetries c (Some h) = 0"
  "h ''x-retries'' = Some (A_int32 t32) \<Longrightarrow> extractRetries c (Some h) = scast t32"
  "h ''x-retries'' = Some (A_int64 t64) \<Longrightarrow> extractRetries c (Some h) = t64"
  "h ''x-retries'' = Some (A_float32 x) \<Longrightarrow> extractRetries c (Some h) = c x"
  "h ''x-retries'' = Some (A_float64 x) \<Longrightarrow> extractRetries c (Some h) = c x"
  by (simp_all add: extractRetries_def)

lemma extractRetries_other:
  "h ''x-retries'' = Some v \<Longrightarrow>
   (\<forall>t. v \<noteq> A_int32 t) \<Longrightarrow> (\<forall>t. v \<noteq> A_int64 t) \<Longrightarrow>
   (\<forall>x. v \<noteq> A_float32 x) \<Longrightarrow> (\<forall>x. v \<noteq> A_float64 x) \<Longrightarrow>
   extractRetries c (Some h) = 0"
  by (cases v) (simp_all add: extractRetries_def)

text \<open>
  Claim C4, amended. For a delivery whose body unmarshals to a job: when the handler
  succeeds the consumer acks. When it fails, the consumer reads \<open>retries\<close> from the
  \<open>x-retries\<close> header, a \<open>nil\<close> table and a missing header counting as 0, a value of type
  \<open>int32\<close>, \<open>int64\<close>, \<open>float32\<close> or \<open>float64\<close> being converted to \<open>int\<close>, and a value of any
  other type, numeric or not, counting as 0. If \<open>retries < max_retries\<close> (3 unless
  configured) it publishes the original body with the delivery's headers and
  \<open>x-retries = int32(retries + 1)\<close>, which is \<open>retries + 1\<close> whenever
  \<open>0 \<le> retries\<close> and \<open>max_retries\<close> fits in 32 bits, and then acks the original delivery;
  otherwise it nacks without requeue.
\<close>

theorem consume_delivery_retry:
  "json_Unmarshal_Job env (dl_Body msg) = Some job \<Longrightarrow>
     (handler env job = None \<longrightarrow> consume_delivery r env msg = [Ev_Ack False]) \<and>
     (handler env job \<noteq> None \<and>
      extractRetries (float_to_int env) (dl_Headers msg) <s rmq_maxRetries r \<longrightarrow>
        consume_delivery r env msg =
          [Ev_Publish
             \<lparr>pub_ContentType = ''application/json'', pub_Body = dl_Body msg,
              pub_Persistent = True,
              pub_Headers =
                (case dl_Headers msg of None \<Rightarrow> Map.empty | Some h \<Rightarrow> h)
                  (''x-retries'' \<mapsto>
                     A_int32 (scast (extractRetries (float_to_int env) (dl_Headers msg) + 1)))\<rparr>,
           Ev_Ack False]) \<and>
     (handler env job \<noteq> None \<and>
      \<not> extractRetries (float_to_int env) (dl_Headers msg) <s rmq_maxRetries r \<longrightarrow>
        consume_delivery r env msg = [Ev_Nack False False]) \<and>
     (0 \<le>s extractRetries (float_to_int env) (dl_Headers msg) \<and>
      extractRetries (float_to_int env) (dl_Headers msg) <s rmq_maxRetries r \<and>
      sint (rmq_maxRetries r) \<le> 2 ^ 31 - 1 \<longrightarrow>
        sint (scast (extractRetries (float_to_int env) (dl_Headers msg) + 1) :: 32 word)
          = sint (extractRetries (float_to_int env) (dl_Headers msg)) + 1) \<and>
     (dl_Headers msg = None \<or> (\<exists>h. dl_Headers msg = Some h \<and> h ''x-retries'' = None)
        \<longrightarrow> extractRetries (float_to_int env) (dl_Headers msg) = 0) \<and>
     (\<forall>h v. dl_Headers msg = Some h \<and> h ''x-retries'' = Some v \<longrightarrow>
        extractRetries (float_to_int env) (dl_Headers msg) =
          (case v of
             A_int32 t \<Rightarrow> scast t
           | A_int64 t \<Rightarrow> t
           | A_float32 x \<Rightarrow> float_to_int env x
           | A_float64 x \<Rightarrow> float_to_int env x
           | _ \<Rightarrow> 0)) \<and>
     (getenv ''NFE_DROP_RABBITMQ_MAX_RETRIES'' = [] \<longrightarrow> config_maxRetries getenv atoi = 3)"
proof -
  assume j: "json_Unmarshal_Job env (dl_Body msg) = Some job"
  let ?retries = "extractRetries (float_to_int env) (dl_Headers msg)"
  have 1: "handler env job = None \<longrightarrow> consume_delivery r env msg = [Ev_Ack False]"
    using j by (simp add: consume_delivery_def)
  have 2: "handler env job \<noteq> None \<and> ?retries <s rmq_maxRetries r \<longrightarrow>
        consume_delivery r env msg =
          [Ev_Publish
             \<lparr>pub_ContentType = ''application/json'', pub_Body = dl_Body msg,
              pub_Persistent = True,
              pub_Headers =
                (case dl_Headers msg of None \<Rightarrow> Map.empty | Some h \<Rightarrow> h)
                  (''x-retries'' \<mapsto> A_int32 (scast (?retries + 1)))\<rparr>,
           Ev_Ack False]"
    using j by (auto simp: consume_delivery_def publish_def Let_def)
  have 3: "handler env job \<noteq> None \<and> \<not> ?retries <s rmq_maxRetries r \<longrightarrow>
        consume_delivery r env msg = [Ev_Nack False False]"
    using j by (auto simp: consume_delivery_def Let_def)
  have 4: "0 \<le>s ?retries \<and> ?retries <s rmq_maxRetries r \<and> sint (rmq_maxRetries r) \<le> 2 ^ 31 - 1
      \<longrightarrow> sint (scast (?retries + 1) :: 32 word) = sint ?retries + 1"
    using int32_of_succ by blast
  have 5: "dl_Headers msg = None \<or> (\<exists>h. dl_Headers msg = Some h \<and> h ''x-retries'' = None)
        \<longrightarrow> ?retries = 0"
    by (auto simp: extractRetries_def)
  have 6: "\<forall>h v. dl_Headers msg = Some h \<and> h ''x-retries'' = Some v \<longrightarrow>
        ?retries =
          (case v of
             A_int32 t \<Rightarrow> scast t
           | A_int64 t \<Rightarrow> t
           | A_float32 x \<Rightarrow> float_to_int env x
           | A_float64 x \<Rightarrow> float_to_int env x
           | _ \<Rightarrow> 0)"
    by (auto simp: extractRetries_def)
  have 7: "getenv ''NFE_DROP_RABBITMQ_MAX_RETRIES'' = [] \<longrightarrow> config_maxRetries getenv atoi = 3"
    by (simp add: config_maxRetries_def)
  from 1 2 3 4 5 6 7 show ?thesis by blast
qed

theorem consume_delivery_retry_witness:
  "consume_delivery fixture_rmq fixture_consumer (delivery_with (A_int32 2))
     = [Ev_Publish \<lparr>pub_ContentType = ''application/json'', pub_Body = fixture_body,
                     pub_Persistent = True, pub_Headers = [''x-retries'' \<mapsto> A_int32 3]\<rparr>,
        Ev_Ack False] \<and>
   consume_delivery fixture_rmq fixture_consumer (delivery_with (A_int32 3))
     = [Ev_Nack False False] \<and>
   consume_delivery fixture_rmq fixture_consumer \<lparr>dl_Body = fixture_body, dl_Headers = None\<rparr>
     = [Ev_Publish \<lparr>pub_ContentType = ''application/json'', pub_Body = fixture_body,
                     pub_Persistent = True, pub_Headers = [''x-retries'' \<mapsto> A_int32 1]\<rparr>,
        Ev_Ack False]"
proof -
  have j: "json_Unmarshal_Job fixture_consumer (dl_Body (delivery_with v)) = Some fixture_job" for v
    by (simp add: fixture_consumer_def delivery_with_def)
  have j0: "json_Unmarshal_Job fixture_consumer
      (dl_Body (\<lparr>dl_Body = fixture_body, dl_Headers = None\<rparr> :: rat Delivery)) = Some fixture_job"
    by (simp add: fixture_consumer_def)
  have h: "handler fixture_consumer fixture_job \<noteq> None"
    by (simp add: fixture_consumer_def)
  have r2: "extractRetries (float_to_int fixture_consumer) (dl_Headers (delivery_with (A_int32 2))) = 2"
    and r3: "extractRetries (float_to_int fixture_consumer) (dl_Headers (delivery_with (A_int32 3))) = 3"
    and r0: "extractRetries (float_to_int fixture_consumer)
        (dl_Headers (\<lparr>dl_Body = fixture_body, dl_Headers = None\<rparr> :: rat Delivery)) = 0"
    by (simp_all add: extractRetries_def delivery_with_def)
  have m: "rmq_maxRetries fixture_rmq = 3" by (simp add: fixture_rmq_def)
  show ?thesis
    using consume_delivery_retry [OF j [of "A_int32 2"], of fixture_rmq]
      consume_delivery_retry [OF j [of "A_int32 3"], of fixture_rmq]
      consume_delivery_retry [OF j0, of fixture_rmq] h
    by (simp add: r2 r3 r0 m word_sless_alt delivery_with_def)
qed

section \<open>Stability check\<close>













section \<open>Polling mode of the worker\<close>

lemma process_one_events:
  "\<exists>evs. snd (fst (process_one lib env cfg source srcPath filename s))
     = snd s @ E_ParseFile srcPath # evs"
  by (auto simp: process_one_def log_events_def moveToFailed_def moveToIgnored_def
      moveToProcessed_def Let_def split: sum.splits prod.splits)

text \<open>
  Claim C10. In the polling mode, for a regular file of \<open>processing/\<close> whose lowercased
  extension is neither \<open>.xml\<close> nor \<open>.zip\<close>, \<open>handleProcessingFile\<close> stats the file and renames
  it into \<open>processed/\<close> under its base name, and does nothing else: the store is unchanged
  and there is no parse, save or metric event (and no rename into \<open>ignored/\<close> or \<open>failed/\<close>).
\<close>

theorem handleProcessingFile_other_extension:
  "we_Stat env srcPath = StatInfo sz False \<Longrightarrow>
   strings_ToLower lib (filepath_Ext (filepath_Base srcPath)) \<noteq> ''.xml'' \<Longrightarrow>
   strings_ToLower lib (filepath_Ext (filepath_Base srcPath)) \<noteq> ''.zip'' \<Longrightarrow>
   handleProcessingFile lib env cfg srcPath (db, evs)
     = (db, evs @ [E_Stat srcPath,
                   E_Rename srcPath (filepath_Join lib (ProcessedDir cfg) (filepath_Base srcPath))])"
  by (simp add: handleProcessingFile_def moveToProcessed_def log_events_def Let_def)

theorem handleProcessingFile_other_extension_witness:
  "processProcessingFolder fixture_lib fixture_worker_env fixture_cfg (\<lambda>tbl. [], [])
     = (\<lambda>tbl. [],
        [E_Stat ''/data/processing/notes.txt'',
         E_Rename ''/data/processing/notes.txt'' ''/data/processed/notes.txt''])"
proof -
  have st: "we_Stat fixture_worker_env ''/data/processing/notes.txt'' = StatInfo 12 False"
    by (simp add: fixture_worker_env_def)
  have b: "filepath_Base ''/data/processing/notes.txt'' = ''notes.txt''"
    by (simp add: filepath_Base_def)
  have x: "strings_ToLower fixture_lib (filepath_Ext ''notes.txt'') = ''.txt''"
    by (simp add: filepath_Ext_def fixture_lib_def ascii_lower_def)
  have "handleProcessingFile fixture_lib fixture_worker_env fixture_cfg
      ''/data/processing/notes.txt'' (\<lambda>tbl. [], [])
    = (\<lambda>tbl. [], [] @ [E_Stat ''/data/processing/notes.txt'',
         E_Rename ''/data/processing/notes.txt''
           (filepath_Join fixture_lib (ProcessedDir fixture_cfg)
              (filepath_Base ''/data/processing/notes.txt''))])"
    by (rule handleProcessingFile_other_extension [OF st]) (simp_all add: b x)
  then show ?thesis
    by (simp add: processProcessingFolder_def fixture_worker_env_def fixture_cfg_def
        fixture_lib_def b)
qed

end
